theory Spec2Isabelle
  imports Main "HOL-Library.Word" "HOL-Library.AList"
begin

section \<open>The line profiler of \<^verbatim>\<open>src/demo.cpp\<close>\<close>

text \<open>
  The timing attribution engine of the profiler is the class \<^verbatim>\<open>Module\<close>: the interpreter
  calls \<^verbatim>\<open>Module::profile\<close> once per execution event, and the method first closes the
  interval that the previous event opened (the \<^verbatim>\<open>finish_*\<close> methods, selected by
  \<^verbatim>\<open>last_instruction_\<close>) and then books the incoming event (the \<^verbatim>\<open>profile_*\<close> methods).

  Conventions of the embedding:
  \<^item> \<^verbatim>\<open>std::chrono::nanoseconds\<close> and the clock's time points are counts of nanoseconds,
    modelled as \<open>int\<close>; their 64-bit range (292 years) plays no role in the properties below.
  \<^item> \<^verbatim>\<open>size_t\<close> line numbers are \<open>64 word\<close>: the index computation of
    \<^verbatim>\<open>FrameState::current_line\<close> wraps around, and that matters.
  \<^item> a \<^verbatim>\<open>std::vector\<close> is a list; \<^verbatim>\<open>at\<close> throws \<^verbatim>\<open>std::out_of_range\<close>, which is the error
    value \<open>out_of_range\<close>.
  \<^item> a \<^verbatim>\<open>std::unordered_map\<close> is an association list with distinct keys, new keys appended;
    the iteration order of the real container is unspecified, the model iterates in
    insertion order.
  \<^item> the \<^verbatim>\<open>std::stack\<close> of frames is a list whose head is the top; \<^verbatim>\<open>top()\<close> on an empty
    stack is undefined behaviour in C++, here the error value \<open>empty_stack\<close>.
  \<^item> every method that can throw returns \<open>error + 'a\<close>; the state a throwing method leaves
    behind is not modelled (the exception leaves through the interpreter's C frames).
  \<^item> the two readings of the clock in \<^verbatim>\<open>Module::profile\<close> are arguments of the model.
  \<^item> the members' trailing underscore is dropped (an Isabelle name cannot end in one);
    \<^verbatim>\<open>FrameState\<close>'s \<^verbatim>\<open>current_line_\<close>, \<^verbatim>\<open>lines_\<close> and \<^verbatim>\<open>internal_\<close> are \<open>current_line_no\<close>, \<open>frame_lines\<close> and
    \<open>frame_internal\<close>, and \<^verbatim>\<open>Module\<close>'s \<^verbatim>\<open>functions_\<close> is \<open>py_functions\<close>.
  \<^item> what the methods touch outside the object (\<^verbatim>\<open>std::cout\<close>, the interpreter's profile
    and trace hooks) is carried in three extra fields of the state record.
\<close>

subsection \<open>Values of the interpreter\<close>

type_synonym duration = int
type_synonym time_point = int

text \<open>A \<^verbatim>\<open>PyCodeObject*\<close>: the address is the identity of an interpreted callable.\<close>
type_synonym code_ptr = nat

datatype error = out_of_range | runtime_error | empty_stack | null_pointer

text \<open>The frame an event is reported for: its code object and the line it executes.\<close>
record PyFrameObject =
  f_code :: code_ptr
  f_lineno :: int

text \<open>The argument of a foreign call event: a native callable, with its address and the
  string \<^verbatim>\<open>PyObject_Str\<close> prints for it.\<close>
record PyObject =
  ob_addr :: nat
  ob_str :: string

text \<open>
  What the interpreter knows about code objects: \<^verbatim>\<open>co_name\<close>, and the answer of
  \<^verbatim>\<open>inspect.getsourcelines\<close> (the source lines and the number of the first one), \<open>None\<close>
  when the call fails and returns \<^verbatim>\<open>NULL\<close>. Both are parameters of the model.
\<close>
record PyEnv =
  co_name :: "code_ptr \<Rightarrow> string"
  getsourcelines :: "code_ptr \<Rightarrow> (string list \<times> int) option"

text \<open>The event kinds of \<^verbatim>\<open>Python.h\<close>; \<open>PyTrace_unknown\<close> stands for any other integer.\<close>
datatype trace_what =
  PyTrace_CALL | PyTrace_EXCEPTION | PyTrace_LINE | PyTrace_RETURN
  | PyTrace_C_CALL | PyTrace_C_EXCEPTION | PyTrace_C_RETURN | PyTrace_OPCODE
  | PyTrace_unknown

text \<open>What is written to \<^verbatim>\<open>std::cout\<close>: \<open>Seconds n\<close> is the text of the double
  \<^verbatim>\<open>n/1e9\<close> as the stream formats it.\<close>
datatype out_item = Text string | Seconds int | Chr char | Endl

definition PyFrame_GetName :: "PyEnv \<Rightarrow> PyFrameObject \<Rightarrow> string" where
  "PyFrame_GetName env frame = co_name env (f_code frame)"

definition PyFrame_GetLineNumber :: "PyFrameObject \<Rightarrow> int" where
  "PyFrame_GetLineNumber frame = f_lineno frame"

text \<open>\<^verbatim>\<open>PyLong_AsUnsignedLongLong\<close>: \<^verbatim>\<open>(unsigned long long)-1\<close> when the value does not fit.\<close>
definition PyLong_AsUnsignedLongLong :: "int \<Rightarrow> 64 word" where
  "PyLong_AsUnsignedLongLong n = (if 0 \<le> n \<and> n < 2 ^ 64 then word_of_int n else - 1)"

subsection \<open>Containers\<close>

definition vector_at :: "'a list \<Rightarrow> nat \<Rightarrow> error + 'a" where
  "vector_at xs i = (if i < length xs then Inr (xs ! i) else Inl out_of_range)"

definition map_count :: "('k \<times> 'v) list \<Rightarrow> 'k \<Rightarrow> nat" where
  "map_count m k = (case map_of m k of None \<Rightarrow> 0 | Some v \<Rightarrow> 1)"

definition map_at :: "('k \<times> 'v) list \<Rightarrow> 'k \<Rightarrow> error + 'v" where
  "map_at m k = (case map_of m k of None \<Rightarrow> Inl out_of_range | Some v \<Rightarrow> Inr v)"

text \<open>\<^verbatim>\<open>emplace\<close> inserts only when the key is absent.\<close>
definition map_emplace :: "'k \<Rightarrow> 'v \<Rightarrow> ('k \<times> 'v) list \<Rightarrow> ('k \<times> 'v) list" where
  "map_emplace k v m = (case map_of m k of None \<Rightarrow> m @ [(k, v)] | Some w \<Rightarrow> m)"

text \<open>Writing through a reference obtained from \<^verbatim>\<open>at\<close>: the entry is replaced in place.\<close>
definition map_store :: "'k \<Rightarrow> 'v \<Rightarrow> ('k \<times> 'v) list \<Rightarrow> ('k \<times> 'v) list" where
  "map_store k v m = AList.update k v m"

subsection \<open>BaseFunction and Function\<close>

record BaseFunction =
  name :: string
  internal_time :: duration

record Function = BaseFunction +
  code :: code_ptr
  lines :: "string list"
  line_time :: "duration list"
  line_time_internal :: "duration list"

definition BaseFunction_init :: "string \<Rightarrow> BaseFunction" where
  "BaseFunction_init nm = \<lparr>name = nm, internal_time = 0\<rparr>"

definition overhead :: "'a BaseFunction_scheme \<Rightarrow> duration" where
  "overhead f = internal_time f"

definition n_lines :: "Function \<Rightarrow> nat" where
  "n_lines f = length (lines f)"

definition Function_add_elapsed :: "nat \<Rightarrow> duration \<Rightarrow> Function \<Rightarrow> error + Function" where
  "Function_add_elapsed line_number time f =
     (if line_number < length (line_time f)
      then Inr (f\<lparr>line_time := (line_time f)[line_number := line_time f ! line_number + time]\<rparr>)
      else Inl out_of_range)"

definition Function_add_elapsed_internal :: "nat \<Rightarrow> duration \<Rightarrow> Function \<Rightarrow> error + Function" where
  "Function_add_elapsed_internal line_number time f =
     (if line_number < length (line_time_internal f)
      then Inr (f\<lparr>line_time_internal :=
                    (line_time_internal f)[line_number := line_time_internal f ! line_number + time]\<rparr>)
      else Inl out_of_range)"

text \<open>\<^verbatim>\<open>BaseFunction::add_elapsed_internal\<close> also prints the new value; the second component
  is what it writes to \<^verbatim>\<open>std::cout\<close>.\<close>
definition BaseFunction_add_elapsed_internal ::
  "duration \<Rightarrow> 'a BaseFunction_scheme \<Rightarrow> 'a BaseFunction_scheme \<times> out_item list" where
  "BaseFunction_add_elapsed_internal time f =
     (let f' = f\<lparr>internal_time := internal_time f + time\<rparr>
      in (f', [Text ''Internal: '', Seconds (internal_time f'), Endl]))"

text \<open>The constructor: both accumulator vectors are resized to the number of lines, which
  value-initialises every entry to zero.\<close>
definition Function_init :: "string \<Rightarrow> string list \<Rightarrow> code_ptr \<Rightarrow> Function" where
  "Function_init nm lns c =
     \<lparr>name = nm, internal_time = 0, code = c, lines = lns,
      line_time = replicate (length lns) 0,
      line_time_internal = replicate (length lns) 0\<rparr>"

subsection \<open>Instruction, LineState and FrameState\<close>

datatype Instruction =
  kOrigin | kLine | kCall | kReturn | kException | kCCall | kCReturn | kCException | kInvalid

record LineState =
  internal :: duration
  external :: duration

definition LineState_add_internal :: "duration \<Rightarrow> LineState \<Rightarrow> LineState" where
  "LineState_add_internal dur l = l\<lparr>internal := internal l + dur\<rparr>"

definition LineState_add_external :: "duration \<Rightarrow> LineState \<Rightarrow> LineState" where
  "LineState_add_external dur l = l\<lparr>external := external l + dur\<rparr>"

record FrameState =
  starting_line :: "64 word"
  current_line_no :: "64 word"
  function_key :: code_ptr
  frame_lines :: "LineState list"
  frame_internal :: duration

text \<open>The constructor; \<^verbatim>\<open>resize\<close> value-initialises the line states to zero.\<close>
definition FrameState_init :: "code_ptr \<Rightarrow> nat \<Rightarrow> 64 word \<Rightarrow> FrameState" where
  "FrameState_init c n line_start =
     \<lparr>starting_line = line_start, current_line_no = 0, function_key = c,
      frame_lines = replicate n \<lparr>internal = 0, external = 0\<rparr>, frame_internal = 0\<rparr>"

definition key :: "FrameState \<Rightarrow> code_ptr" where
  "key fr = function_key fr"

text \<open>\<^verbatim>\<open>current_line()\<close> returns a reference to \<^verbatim>\<open>lines_.at(current_line_-starting_line_-1)\<close>;
  the subtraction is on \<^verbatim>\<open>size_t\<close>. The model returns the position referred to.\<close>
definition current_line :: "FrameState \<Rightarrow> error + nat" where
  "current_line fr =
     (let i = unat (current_line_no fr - starting_line fr - 1)
      in if i < length (frame_lines fr) then Inr i else Inl out_of_range)"

text \<open>A call of a \<^verbatim>\<open>LineState\<close> method on the reference \<^verbatim>\<open>current_line()\<close> returns.\<close>
definition on_current_line :: "(LineState \<Rightarrow> LineState) \<Rightarrow> FrameState \<Rightarrow> error + FrameState" where
  "on_current_line upd fr =
     (case current_line fr of
        Inl e \<Rightarrow> Inl e
      | Inr i \<Rightarrow> Inr (fr\<lparr>frame_lines := (frame_lines fr)[i := upd (frame_lines fr ! i)]\<rparr>))"

definition set_current_line :: "64 word \<Rightarrow> FrameState \<Rightarrow> FrameState" where
  "set_current_line l fr = fr\<lparr>current_line_no := l\<rparr>"

definition FrameState_add_internal :: "duration \<Rightarrow> FrameState \<Rightarrow> FrameState" where
  "FrameState_add_internal dur fr = fr\<lparr>frame_internal := frame_internal fr + dur\<rparr>"

text \<open>\<^verbatim>\<open>total_time\<close>: the loop over the line states, with its accumulator.\<close>
fun total_time_loop :: "LineState list \<Rightarrow> duration \<Rightarrow> duration" where
  "total_time_loop [] result = result"
| "total_time_loop (line # rest) result =
     total_time_loop rest (result + internal line + external line)"

definition total_time :: "FrameState \<Rightarrow> duration" where
  "total_time fr = total_time_loop (frame_lines fr) 0"

subsection \<open>Module\<close>

record Module =
  py_functions :: "(code_ptr \<times> Function) list"
  c_functions :: "(string \<times> BaseFunction) list"
  frame_stack :: "FrameState list"
  last_instruction :: Instruction
  last_instruction_start :: time_point
  last_instruction_end :: time_point
  last_c_name :: string
  cout :: "out_item list"
  profilefunc :: bool
  tracefunc :: bool

text \<open>The state after \<^verbatim>\<open>module_exec\<close>: the members' default initialisers, nothing printed
  and no hook installed.\<close>
definition Module_init :: Module where
  "Module_init =
     \<lparr>py_functions = [], c_functions = [], frame_stack = [], last_instruction = kInvalid,
      last_instruction_start = 0, last_instruction_end = 0, last_c_name = [],
      cout = [], profilefunc = False, tracefunc = False\<rparr>"

definition elapsed :: "Module \<Rightarrow> duration" where
  "elapsed s = last_instruction_end s - last_instruction_start s"

text \<open>The loop of \<^verbatim>\<open>get_lines\<close> starts at index 1.\<close>
function get_lines_loop :: "nat \<Rightarrow> string list \<Rightarrow> string list \<Rightarrow> string list" where
  "get_lines_loop i lines_py lns =
     (if i < length lines_py then get_lines_loop (Suc i) lines_py (lns @ [lines_py ! i])
      else lns)"
  by pat_completeness auto
termination
  by (relation "measure (\<lambda>(i, lines_py, lns). length lines_py - i)") auto

declare get_lines_loop.simps [simp del]

text \<open>\<^verbatim>\<open>get_lines\<close> returns the lines and, through \<^verbatim>\<open>line_start\<close>, the first line number.\<close>
definition get_lines :: "PyEnv \<Rightarrow> PyFrameObject \<Rightarrow> error + (string list \<times> 64 word)" where
  "get_lines env frame =
     (case getsourcelines env (f_code frame) of
        None \<Rightarrow> Inl null_pointer
      | Some (lines_py, line_start_py) \<Rightarrow>
          Inr (get_lines_loop 1 lines_py [], PyLong_AsUnsignedLongLong line_start_py))"

definition emplace_frame :: "PyEnv \<Rightarrow> PyFrameObject \<Rightarrow> Module \<Rightarrow> error + Module" where
  "emplace_frame env frame s =
     (case get_lines env frame of
        Inl e \<Rightarrow> Inl e
      | Inr (lns, line_start) \<Rightarrow>
          Inr (s\<lparr>frame_stack :=
                  FrameState_init (f_code frame) (length lns) line_start # frame_stack s\<rparr>))"

definition add_function :: "PyEnv \<Rightarrow> PyFrameObject \<Rightarrow> Module \<Rightarrow> error + Module" where
  "add_function env frame s =
     (let c = f_code frame in
      if map_count (py_functions s) c \<noteq> 0 then Inr s
      else case get_lines env frame of
             Inl e \<Rightarrow> Inl e
           | Inr (lns, line_start) \<Rightarrow>
               Inr (s\<lparr>py_functions :=
                       map_emplace c (Function_init (PyFrame_GetName env frame) lns c)
                         (py_functions s)\<rparr>))"

definition add_c_function :: "string \<Rightarrow> Module \<Rightarrow> Module" where
  "add_c_function nm s =
     s\<lparr>c_functions := map_emplace nm (BaseFunction_init nm) (c_functions s)\<rparr>"

definition start :: "Module \<Rightarrow> Module" where
  "start s = s\<lparr>last_instruction := kOrigin, profilefunc := True, tracefunc := True\<rparr>"

definition stop :: "Module \<Rightarrow> Module" where
  "stop s = s\<lparr>profilefunc := False, tracefunc := False\<rparr>"

subsection \<open>Closing an invocation\<close>

text \<open>The loop of \<^verbatim>\<open>pop_frame\<close> over the frame's line states. The source declares the index
  \<^verbatim>\<open>i\<close> before the loop and passes it to both calls; the loop body does not change it.\<close>
fun pop_frame_loop :: "nat \<Rightarrow> LineState list \<Rightarrow> Function \<Rightarrow> error + Function" where
  "pop_frame_loop i [] fn = Inr fn"
| "pop_frame_loop i (line # rest) fn =
     (case Function_add_elapsed i (external line) fn of
        Inl e \<Rightarrow> Inl e
      | Inr fn1 \<Rightarrow>
          (case Function_add_elapsed_internal i (internal line) fn1 of
             Inl e \<Rightarrow> Inl e
           | Inr fn2 \<Rightarrow> pop_frame_loop i rest fn2))"

definition pop_frame :: "Module \<Rightarrow> error + Module" where
  "pop_frame s =
     (case frame_stack s of
        [] \<Rightarrow> Inl empty_stack
      | frame # rest \<Rightarrow>
          (case map_at (py_functions s) (key frame) of
             Inl e \<Rightarrow> Inl e
           | Inr fn \<Rightarrow>
               (case BaseFunction_add_elapsed_internal (frame_internal frame) fn of
                  (fn1, printed) \<Rightarrow>
                    (case pop_frame_loop 0 (frame_lines frame) fn1 of
                       Inl e \<Rightarrow> Inl e
                     | Inr fn2 \<Rightarrow>
                         (let total = total_time frame;
                              s1 = s\<lparr>py_functions := map_store (key frame) fn2 (py_functions s),
                                     cout := cout s @ printed,
                                     frame_stack := rest\<rparr>
                          in case rest of
                               [] \<Rightarrow> Inr s1
                             | caller # below \<Rightarrow>
                                 (case on_current_line (LineState_add_external total) caller of
                                    Inl e \<Rightarrow> Inl e
                                  | Inr caller' \<Rightarrow>
                                      Inr (s1\<lparr>frame_stack := caller' # below\<rparr>)))))))"

subsection \<open>The finish methods: attributing the interval that just ended\<close>

definition finish_origin :: "PyFrameObject \<Rightarrow> Module \<Rightarrow> Module" where
  "finish_origin frame s = s"

definition finish_line :: "PyFrameObject \<Rightarrow> Module \<Rightarrow> error + Module" where
  "finish_line frame s =
     (case frame_stack s of
        [] \<Rightarrow> Inr s
      | fr # rest \<Rightarrow>
          (case on_current_line (LineState_add_internal (elapsed s)) fr of
             Inl e \<Rightarrow> Inl e
           | Inr fr' \<Rightarrow> Inr (s\<lparr>frame_stack := fr' # rest\<rparr>)))"

definition finish_call :: "PyFrameObject \<Rightarrow> Module \<Rightarrow> error + Module" where
  "finish_call frame s =
     (case map_at (py_functions s) (f_code frame) of
        Inl e \<Rightarrow> Inl e
      | Inr fn \<Rightarrow>
          (case BaseFunction_add_elapsed_internal (elapsed s) fn of
             (fn', printed) \<Rightarrow>
               Inr (s\<lparr>py_functions := map_store (f_code frame) fn' (py_functions s),
                      cout := cout s @ printed\<rparr>)))"

definition finish_return :: "PyFrameObject \<Rightarrow> Module \<Rightarrow> error + Module" where
  "finish_return frame s =
     (case frame_stack s of
        [] \<Rightarrow> Inl empty_stack
      | fr # rest \<Rightarrow>
          pop_frame (s\<lparr>frame_stack := FrameState_add_internal (elapsed s) fr # rest\<rparr>))"

definition finish_ccall :: "PyFrameObject \<Rightarrow> Module \<Rightarrow> error + Module" where
  "finish_ccall frame s =
     (case map_at (c_functions s) (last_c_name s) of
        Inl e \<Rightarrow> Inl e
      | Inr fn \<Rightarrow>
          (case BaseFunction_add_elapsed_internal (elapsed s) fn of
             (fn', printed) \<Rightarrow>
               (let s1 = s\<lparr>c_functions := map_store (last_c_name s) fn' (c_functions s),
                           cout := cout s @ printed\<rparr>
                in case frame_stack s1 of
                     [] \<Rightarrow> Inl empty_stack
                   | fr # rest \<Rightarrow>
                       (case on_current_line (LineState_add_external (elapsed s1)) fr of
                          Inl e \<Rightarrow> Inl e
                        | Inr fr' \<Rightarrow> Inr (s1\<lparr>frame_stack := fr' # rest\<rparr>)))))"

definition finish_creturn :: "PyFrameObject \<Rightarrow> Module \<Rightarrow> error + Module" where
  "finish_creturn frame s =
     (case frame_stack s of
        [] \<Rightarrow> Inl empty_stack
      | fr # rest \<Rightarrow>
          Inr (s\<lparr>frame_stack := FrameState_add_internal (elapsed s) fr # rest\<rparr>))"

subsection \<open>The profile methods: booking the incoming event\<close>

text \<open>\<^verbatim>\<open>profile_call\<close> also clears \<^verbatim>\<open>f_trace_opcodes\<close> of the interpreter's frame, which no
  method reads.\<close>
definition profile_call :: "PyEnv \<Rightarrow> PyFrameObject \<Rightarrow> Module \<Rightarrow> error + Module" where
  "profile_call env frame s =
     (case add_function env frame s of
        Inl e \<Rightarrow> Inl e
      | Inr s1 \<Rightarrow>
          (case emplace_frame env frame s1 of
             Inl e \<Rightarrow> Inl e
           | Inr s2 \<Rightarrow> Inr (s2\<lparr>last_instruction := kCall\<rparr>)))"

text \<open>The \<^verbatim>\<open>int\<close> line number becomes a \<^verbatim>\<open>size_t\<close>.\<close>
definition profile_line :: "PyFrameObject \<Rightarrow> Module \<Rightarrow> Module" where
  "profile_line frame s =
     (let s1 = s\<lparr>last_instruction := kLine\<rparr>
      in case frame_stack s1 of
           [] \<Rightarrow> s1
         | fr # rest \<Rightarrow>
             (let line_number = PyFrame_GetLineNumber frame
              in s1\<lparr>frame_stack := set_current_line (word_of_int line_number) fr # rest\<rparr>))"

definition profile_c_call :: "PyFrameObject \<Rightarrow> PyObject \<Rightarrow> Module \<Rightarrow> Module" where
  "profile_c_call frame arg s =
     (let s1 = s\<lparr>last_c_name := ob_str arg\<rparr>;
          s2 = add_c_function (last_c_name s1) s1
      in s2\<lparr>last_instruction := kCCall\<rparr>)"

definition profile_return :: "PyFrameObject \<Rightarrow> Module \<Rightarrow> Module" where
  "profile_return frame s = s\<lparr>last_instruction := kReturn\<rparr>"

definition profile_c_return :: "PyFrameObject \<Rightarrow> Module \<Rightarrow> Module" where
  "profile_c_return frame s = s\<lparr>last_instruction := kCReturn\<rparr>"

subsection \<open>The dispatcher\<close>

text \<open>The first \<^verbatim>\<open>switch\<close> of \<^verbatim>\<open>Module::profile\<close>, on \<^verbatim>\<open>last_instruction_\<close>.\<close>
definition finish :: "PyFrameObject \<Rightarrow> Module \<Rightarrow> error + Module" where
  "finish frame s =
     (case last_instruction s of
        kOrigin \<Rightarrow> Inr (finish_origin frame s)
      | kLine \<Rightarrow> finish_line frame s
      | kCall \<Rightarrow> finish_call frame s
      | kReturn \<Rightarrow> finish_return frame s
      | kException \<Rightarrow> Inr s
      | kCCall \<Rightarrow> finish_ccall frame s
      | kCReturn \<Rightarrow> finish_creturn frame s
      | kCException \<Rightarrow> Inr s
      | kInvalid \<Rightarrow> Inr s)"

text \<open>The second \<^verbatim>\<open>switch\<close>, on \<^verbatim>\<open>what\<close>.\<close>
definition begin_event ::
  "PyEnv \<Rightarrow> trace_what \<Rightarrow> PyFrameObject \<Rightarrow> PyObject \<Rightarrow> Module \<Rightarrow> error + Module" where
  "begin_event env what frame arg s =
     (case what of
        PyTrace_LINE \<Rightarrow> Inr (profile_line frame s)
      | PyTrace_CALL \<Rightarrow> profile_call env frame s
      | PyTrace_RETURN \<Rightarrow> Inr (profile_return frame s)
      | PyTrace_C_CALL \<Rightarrow> Inr (profile_c_call frame arg s)
      | PyTrace_C_RETURN \<Rightarrow> Inr (profile_c_return frame s)
      | PyTrace_EXCEPTION \<Rightarrow> Inr s
      | PyTrace_C_EXCEPTION \<Rightarrow> Inr (profile_c_return frame s)
      | PyTrace_OPCODE \<Rightarrow> Inr s
      | PyTrace_unknown \<Rightarrow> Inl runtime_error)"

text \<open>\<^verbatim>\<open>Module::profile\<close>; \<open>t_entry\<close> and \<open>t_exit\<close> are its two readings of the clock.\<close>
definition profile ::
  "PyEnv \<Rightarrow> trace_what \<Rightarrow> PyFrameObject \<Rightarrow> PyObject \<Rightarrow> time_point \<Rightarrow> time_point \<Rightarrow>
     Module \<Rightarrow> error + Module" where
  "profile env what frame arg t_entry t_exit s =
     (case finish frame (s\<lparr>last_instruction_end := t_entry\<rparr>) of
        Inl e \<Rightarrow> Inl e
      | Inr s1 \<Rightarrow>
          (case begin_event env what frame arg s1 of
             Inl e \<Rightarrow> Inl e
           | Inr s2 \<Rightarrow> Inr (s2\<lparr>last_instruction_start := t_exit\<rparr>)))"

text \<open>The hooks installed by \<^verbatim>\<open>start\<close>; both return 0 to the interpreter.\<close>
definition profile_func ::
  "PyEnv \<Rightarrow> PyFrameObject \<Rightarrow> trace_what \<Rightarrow> PyObject \<Rightarrow> time_point \<Rightarrow> time_point \<Rightarrow>
     Module \<Rightarrow> error + Module" where
  "profile_func env frame what arg t_entry t_exit s = profile env what frame arg t_entry t_exit s"

definition trace_func ::
  "PyEnv \<Rightarrow> PyFrameObject \<Rightarrow> trace_what \<Rightarrow> PyObject \<Rightarrow> time_point \<Rightarrow> time_point \<Rightarrow>
     Module \<Rightarrow> error + Module" where
  "trace_func env frame what arg t_entry t_exit s =
     (if what \<noteq> PyTrace_LINE then Inr s
      else profile_func env frame what arg t_entry t_exit s)"

subsection \<open>Event sequences\<close>

text \<open>One call of \<^verbatim>\<open>Module::profile\<close>: its arguments and its two clock readings. The interval
  between two events is the entry time of the second minus the exit time of the first.\<close>
record event =
  ev_what :: trace_what
  ev_frame :: PyFrameObject
  ev_arg :: PyObject
  ev_entry :: time_point
  ev_exit :: time_point

definition dispatch :: "PyEnv \<Rightarrow> event \<Rightarrow> Module \<Rightarrow> error + Module" where
  "dispatch env ev s =
     profile env (ev_what ev) (ev_frame ev) (ev_arg ev) (ev_entry ev) (ev_exit ev) s"

fun run :: "PyEnv \<Rightarrow> event list \<Rightarrow> Module \<Rightarrow> error + Module" where
  "run env [] s = Inr s"
| "run env (ev # evs) s =
     (case dispatch env ev s of Inl e \<Rightarrow> Inl e | Inr s' \<Rightarrow> run env evs s')"

subsection \<open>The report\<close>

function dump_lines :: "nat \<Rightarrow> Function \<Rightarrow> out_item list \<Rightarrow> error + out_item list" where
  "dump_lines i fn printed =
     (if i < length (lines fn) then
        (case vector_at (line_time fn) i of
           Inl e \<Rightarrow> Inl e
         | Inr extern \<Rightarrow>
             (case vector_at (line_time_internal fn) i of
                Inl e \<Rightarrow> Inl e
              | Inr intern \<Rightarrow>
                  (case vector_at (lines fn) i of
                     Inl e \<Rightarrow> Inl e
                   | Inr line \<Rightarrow>
                       (let total = extern + intern
                        in dump_lines (Suc i) fn
                             (printed @ [Seconds total, Chr CHR ''('', Seconds intern, Chr CHR ''/'',
                                         Seconds extern, Chr CHR '')'', Text '': '', Text line])))))
      else Inr printed)"
  by pat_completeness auto
termination
  by (relation "measure (\<lambda>(i, fn, printed). length (lines fn) - i)") auto

declare dump_lines.simps [simp del]

fun dump_functions :: "(code_ptr \<times> Function) list \<Rightarrow> out_item list \<Rightarrow> error + out_item list" where
  "dump_functions [] printed = Inr printed"
| "dump_functions (pair # rest) printed =
     (let fn = snd pair
      in case dump_lines 0 fn
                (printed @ [Text ''Name: '', Text (name fn), Text '', '', Seconds (overhead fn), Endl]) of
           Inl e \<Rightarrow> Inl e
         | Inr printed' \<Rightarrow> dump_functions rest printed')"

fun dump_c_functions :: "(string \<times> BaseFunction) list \<Rightarrow> out_item list \<Rightarrow> out_item list" where
  "dump_c_functions [] printed = printed"
| "dump_c_functions (pair # rest) printed =
     (let fn = snd pair
      in dump_c_functions rest
           (printed @ [Text ''Name: '', Text (name fn), Text '', '', Seconds (overhead fn), Endl]))"

text \<open>\<^verbatim>\<open>Module::dump\<close>: the returned status and the state, in which only \<open>cout\<close> can differ.\<close>
definition dump :: "string \<Rightarrow> Module \<Rightarrow> error + (64 word \<times> Module)" where
  "dump path s =
     (case dump_functions (py_functions s) (cout s) of
        Inl e \<Rightarrow> Inl e
      | Inr printed \<Rightarrow> Inr (0, s\<lparr>cout := dump_c_functions (c_functions s) printed\<rparr>))"

subsection \<open>Observations\<close>

text \<open>What a run that did not throw left behind: a record of the store, the stack.\<close>
definition the_record :: "code_ptr \<Rightarrow> error + Module \<Rightarrow> Function option" where
  "the_record c r = (case r of Inl e \<Rightarrow> None | Inr s \<Rightarrow> map_of (py_functions s) c)"

definition the_stack :: "error + Module \<Rightarrow> FrameState list option" where
  "the_stack r = (case r of Inl e \<Rightarrow> None | Inr s \<Rightarrow> Some (frame_stack s))"

text \<open>The state a run ends in; the initial state stands in for a run that threw.\<close>
definition the_state :: "error + Module \<Rightarrow> Module" where
  "the_state r = (case r of Inl e \<Rightarrow> Module_init | Inr s \<Rightarrow> s)"

definition top_frame :: "error + Module \<Rightarrow> FrameState option" where
  "top_frame r =
     (case r of
        Inl e \<Rightarrow> None
      | Inr s \<Rightarrow> (case frame_stack s of [] \<Rightarrow> None | fr # rest \<Rightarrow> Some fr))"

text \<open>The overhead booked for a callable, zero while it has no record.\<close>
definition py_overhead :: "Module \<Rightarrow> code_ptr \<Rightarrow> duration" where
  "py_overhead s c = (case map_of (py_functions s) c of None \<Rightarrow> 0 | Some fn \<Rightarrow> overhead fn)"

definition c_overhead :: "Module \<Rightarrow> string \<Rightarrow> duration" where
  "c_overhead s nm = (case map_of (c_functions s) nm of None \<Rightarrow> 0 | Some fn \<Rightarrow> overhead fn)"

definition depth :: "Module \<Rightarrow> nat" where
  "depth s = length (frame_stack s)"

definition count_what :: "trace_what \<Rightarrow> event list \<Rightarrow> nat" where
  "count_what w evs = length (filter (\<lambda>ev. ev_what ev = w) evs)"

text \<open>The events that record a kind of their own in \<^verbatim>\<open>last_instruction_\<close>; the hooks of
  \<^verbatim>\<open>start\<close> deliver no others (\<^verbatim>\<open>trace_func\<close> passes line events only, and the
  interpreter's profile hook reports calls and returns).\<close>
definition recorded_kind :: "trace_what \<Rightarrow> bool" where
  "recorded_kind w =
     (w = PyTrace_CALL \<or> w = PyTrace_LINE \<or> w = PyTrace_RETURN \<or> w = PyTrace_C_CALL
      \<or> w = PyTrace_C_RETURN \<or> w = PyTrace_C_EXCEPTION)"

text \<open>The events of the interpreted code itself.\<close>
definition interpreted_kind :: "trace_what \<Rightarrow> bool" where
  "interpreted_kind w = (w = PyTrace_CALL \<or> w = PyTrace_LINE \<or> w = PyTrace_RETURN)"

text \<open>Proper nesting: read from depth \<open>d\<close>, no return arrives without an open call.\<close>
fun nested_from :: "nat \<Rightarrow> event list \<Rightarrow> bool" where
  "nested_from d [] = True"
| "nested_from d (ev # evs) =
     (if ev_what ev = PyTrace_CALL then nested_from (Suc d) evs
      else if ev_what ev = PyTrace_RETURN then 0 < d \<and> nested_from (d - 1) evs
      else nested_from d evs)"

definition well_nested :: "event list \<Rightarrow> bool" where
  "well_nested evs = nested_from 0 evs"

text \<open>A return has been recorded and its frame is still on the stack.\<close>
definition pending_pop :: "Module \<Rightarrow> nat" where
  "pending_pop s = (if last_instruction s = kReturn then 1 else 0)"

text \<open>The sizes of the accumulator arrays agree with the source of the callable.\<close>
definition record_sized :: "PyEnv \<Rightarrow> code_ptr \<times> Function \<Rightarrow> bool" where
  "record_sized env p =
     (case getsourcelines env (fst p) of
        None \<Rightarrow> False
      | Some (src, line_start) \<Rightarrow>
          lines (snd p) = drop 1 src
          \<and> length (line_time (snd p)) = length (drop 1 src)
          \<and> length (line_time_internal (snd p)) = length (drop 1 src))"

definition frame_sized :: "PyEnv \<Rightarrow> FrameState \<Rightarrow> bool" where
  "frame_sized env fr =
     (case getsourcelines env (function_key fr) of
        None \<Rightarrow> False
      | Some (src, line_start) \<Rightarrow>
          length (frame_lines fr) = length (drop 1 src)
          \<and> starting_line fr = PyLong_AsUnsignedLongLong line_start)"

definition sized :: "PyEnv \<Rightarrow> Module \<Rightarrow> bool" where
  "sized env s =
     (list_all (record_sized env) (py_functions s) \<and> list_all (frame_sized env) (frame_stack s))"

subsection \<open>Concrete runs\<close>

text \<open>Two callables: \<open>caller\<close> (code object 1, four source lines from line 10) and
  \<open>callee\<close> (code object 2, three source lines from line 20). Times are in nanoseconds.\<close>
definition demo_env :: PyEnv where
  "demo_env =
     \<lparr>co_name = (\<lambda>c. if c = 1 then ''caller'' else ''callee''),
      getsourcelines =
        (\<lambda>c. if c = 1 then Some ([''def caller():'', ''  x = 1'', ''  callee()'', ''  return x''], 10)
             else if c = 2 then Some ([''def callee():'', ''  a = 1'', ''  b = 2''], 20)
             else None)\<rparr>"

text \<open>An event of the interpreted code, dispatched at time \<open>t\<close> in no time.\<close>
definition py_event :: "trace_what \<Rightarrow> code_ptr \<Rightarrow> int \<Rightarrow> time_point \<Rightarrow> event" where
  "py_event w c l t =
     \<lparr>ev_what = w, ev_frame = \<lparr>f_code = c, f_lineno = l\<rparr>,
      ev_arg = \<lparr>ob_addr = 0, ob_str = []\<rparr>, ev_entry = t, ev_exit = t\<rparr>"

text \<open>An event of a foreign call made from line \<open>l\<close> of \<open>c\<close>.\<close>
definition c_event :: "trace_what \<Rightarrow> code_ptr \<Rightarrow> int \<Rightarrow> PyObject \<Rightarrow> time_point \<Rightarrow> event" where
  "c_event w c l arg t =
     \<lparr>ev_what = w, ev_frame = \<lparr>f_code = c, f_lineno = l\<rparr>, ev_arg = arg, ev_entry = t, ev_exit = t\<rparr>"

definition builtin_len :: PyObject where
  "builtin_len = \<lparr>ob_addr = 4096, ob_str = ''<built-in function len>''\<rparr>"

text \<open>Another native callable that prints like \<open>builtin_len\<close>.\<close>
definition shadowed_len :: PyObject where
  "shadowed_len = \<lparr>ob_addr = 8192, ob_str = ''<built-in function len>''\<rparr>"

text \<open>\<open>callee\<close> runs its line 21 for 1 ms and its line 22 for 2 ms, then returns.\<close>
definition two_line_events :: "event list" where
  "two_line_events =
     [py_event PyTrace_CALL 1 10 0, py_event PyTrace_LINE 1 12 1000000,
      py_event PyTrace_CALL 2 20 2000000, py_event PyTrace_LINE 2 21 3000000,
      py_event PyTrace_LINE 2 22 4000000, py_event PyTrace_RETURN 2 22 6000000]"

text \<open>The scenario with intervals of 10 ms, 5 ms and 2 ms, after the call of \<open>caller\<close>.\<close>
definition nested_call_events :: "event list" where
  "nested_call_events =
     [py_event PyTrace_CALL 1 10 0, py_event PyTrace_LINE 1 12 1000000,
      py_event PyTrace_CALL 2 20 11000000, py_event PyTrace_LINE 2 22 16000000,
      py_event PyTrace_RETURN 2 22 18000000]"

text \<open>A foreign call that raises, 1 ms after it began; the next line starts 4 ms later.\<close>
definition c_exception_events :: "event list" where
  "c_exception_events =
     [py_event PyTrace_CALL 1 10 0, py_event PyTrace_LINE 1 12 1000000,
      c_event PyTrace_C_CALL 1 12 builtin_len 2000000,
      c_event PyTrace_C_EXCEPTION 1 12 builtin_len 3000000,
      py_event PyTrace_LINE 1 13 7000000]"

text \<open>An exception is reported 2 ms into line 12; the next line starts 4 ms later.\<close>
definition exception_events :: "event list" where
  "exception_events =
     [py_event PyTrace_CALL 1 10 0, py_event PyTrace_LINE 1 12 1000000,
      py_event PyTrace_EXCEPTION 1 12 3000000, py_event PyTrace_LINE 1 13 7000000]"

text \<open>A foreign call is the first thing reported for a new invocation.\<close>
definition early_c_call_events :: "event list" where
  "early_c_call_events =
     [py_event PyTrace_CALL 1 10 0, c_event PyTrace_C_CALL 1 10 builtin_len 1000000,
      c_event PyTrace_C_RETURN 1 10 builtin_len 2000000]"

text \<open>\<open>caller\<close> has been called and has run its line 12 for 1 ms when the next event arrives.\<close>
definition caller_running :: Module where
  "caller_running =
     the_state (run demo_env [py_event PyTrace_CALL 1 10 0, py_event PyTrace_LINE 1 12 1000000]
                  (start Module_init))"

text \<open>A foreign call made by code that was running before the engine was started.\<close>
definition toplevel_c_call_events :: "event list" where
  "toplevel_c_call_events =
     [py_event PyTrace_LINE 0 3 0, c_event PyTrace_C_CALL 0 3 builtin_len 1000000,
      c_event PyTrace_C_RETURN 0 3 builtin_len 2000000]"

text \<open>One complete invocation of \<open>caller\<close>.\<close>
definition single_call_events :: "event list" where
  "single_call_events =
     [py_event PyTrace_CALL 1 10 0, py_event PyTrace_LINE 1 11 1000000,
      py_event PyTrace_RETURN 1 11 2000000]"

text \<open>The same, followed by a line event of the code that made the call.\<close>
definition completed_call_events :: "event list" where
  "completed_call_events = single_call_events @ [py_event PyTrace_LINE 0 3 3000000]"

section \<open>Properties\<close>

lemmas engine_defs =
  dispatch_def profile_def finish_def begin_event_def finish_origin_def finish_line_def finish_call_def
  finish_return_def finish_ccall_def finish_creturn_def profile_call_def profile_line_def
  profile_c_call_def profile_return_def profile_c_return_def pop_frame_def add_function_def
  add_c_function_def emplace_frame_def get_lines_def elapsed_def on_current_line_def current_line_def
  set_current_line_def FrameState_add_internal_def FrameState_init_def Function_init_def
  BaseFunction_init_def BaseFunction_add_elapsed_internal_def Function_add_elapsed_def
  Function_add_elapsed_internal_def LineState_add_internal_def LineState_add_external_def
  map_at_def map_count_def map_emplace_def map_store_def key_def total_time_def
  PyFrame_GetName_def PyFrame_GetLineNumber_def PyLong_AsUnsignedLongLong_def
  start_def stop_def Module_init_def

lemmas run_defs = demo_env_def py_event_def c_event_def builtin_len_def

subsection \<open>Loops and containers\<close>

lemma get_lines_loop_eq: "get_lines_loop i lines_py lns = lns @ drop i lines_py"
proof (induction i lines_py lns rule: get_lines_loop.induct)
  case (1 i lines_py lns)
  show ?case
  proof (cases "i < length lines_py")
    case True
    then show ?thesis
      using "1.IH" by (subst get_lines_loop.simps) (simp add: Cons_nth_drop_Suc)
  next
    case False
    then show ?thesis by (subst get_lines_loop.simps) simp
  qed
qed

lemma pop_frame_loop_valid:
  assumes "i < length (line_time fn)" and "i < length (line_time_internal fn)"
  shows "pop_frame_loop i ls fn =
           Inr (fn\<lparr>line_time := (line_time fn)[i := line_time fn ! i + sum_list (map external ls)],
                     line_time_internal :=
                       (line_time_internal fn)[i := line_time_internal fn ! i + sum_list (map internal ls)]\<rparr>)"
  using assms
proof (induction ls arbitrary: fn)
  case Nil
  then show ?case by simp
next
  case (Cons l ls)
  let ?fn2 = "fn\<lparr>line_time := (line_time fn)[i := line_time fn ! i + external l],
                   line_time_internal := (line_time_internal fn)[i := line_time_internal fn ! i + internal l]\<rparr>"
  have step: "pop_frame_loop i (l # ls) fn = pop_frame_loop i ls ?fn2"
    using Cons.prems by (simp add: Function_add_elapsed_def Function_add_elapsed_internal_def)
  have "pop_frame_loop i ls ?fn2 =
          Inr (?fn2\<lparr>line_time := (line_time ?fn2)[i := line_time ?fn2 ! i + sum_list (map external ls)],
                     line_time_internal :=
                       (line_time_internal ?fn2)[i := line_time_internal ?fn2 ! i + sum_list (map internal ls)]\<rparr>)"
    using Cons.prems by (intro Cons.IH) simp_all
  then show ?case
    unfolding step using Cons.prems by (simp add: add.assoc)
qed

lemma map_of_map_emplace:
  "map_of (map_emplace k v m) k' =
     (if k' = k then (case map_of m k of None \<Rightarrow> Some v | Some w \<Rightarrow> Some w) else map_of m k')"
  by (auto simp: map_emplace_def map_add_def split: option.splits)

lemma map_of_map_store: "map_of (map_store k v m) = (map_of m)(k \<mapsto> v)"
  by (simp add: map_store_def update_conv')

lemma dump_lines_appends:
  "dump_lines i fn printed = Inr p \<Longrightarrow> \<exists>out. p = printed @ out"
proof (induction i fn printed arbitrary: p rule: dump_lines.induct)
  case (1 i fn printed)
  show ?case
  proof (cases "i < length (lines fn)")
    case False
    with "1.prems" show ?thesis by (subst (asm) dump_lines.simps) simp
  next
    case True
    from "1.prems" True obtain extern intern line where
      a: "vector_at (line_time fn) i = Inr extern"
      and b: "vector_at (line_time_internal fn) i = Inr intern"
      and c: "vector_at (lines fn) i = Inr line"
      and d: "dump_lines (Suc i) fn
                (printed @ [Seconds (extern + intern), Chr CHR ''('', Seconds intern, Chr CHR ''/'',
                            Seconds extern, Chr CHR '')'', Text '': '', Text line]) = Inr p"
      by (subst (asm) dump_lines.simps) (auto split: sum.splits simp: Let_def)
    from "1.IH" [OF True a b c refl d] show ?thesis by auto
  qed
qed

lemma dump_functions_appends:
  "dump_functions m printed = Inr p \<Longrightarrow> \<exists>out. p = printed @ out"
proof (induction m arbitrary: printed p)
  case Nil
  then show ?case by simp
next
  case (Cons pair m)
  from Cons.prems obtain q where
    a: "dump_lines 0 (snd pair)
          (printed @ [Text ''Name: '', Text (name (snd pair)), Text '', '',
                      Seconds (overhead (snd pair)), Endl]) = Inr q"
    and b: "dump_functions m q = Inr p"
    by (auto simp: Let_def split: sum.splits)
  from dump_lines_appends [OF a] Cons.IH [OF b] show ?case by auto
qed

lemma dump_c_functions_appends: "\<exists>out. dump_c_functions m printed = printed @ out"
proof (induction m arbitrary: printed)
  case Nil
  then show ?case by simp
next
  case (Cons pair m)
  from Cons.IH [of "printed @ [Text ''Name: '', Text (name (snd pair)), Text '', '',
                      Seconds (overhead (snd pair)), Endl]"]
  show ?case by (auto simp: Let_def)
qed

subsection \<open>Folding an invocation into its record\<close>

text \<open>
  C1 (the fold of a returning invocation is index-aligned: entry \<open>i\<close> of the record grows by
  line \<open>i\<close> of the invocation). The code does not do this. In the run below \<open>callee\<close> spends
  1 ms on its line 21 and 2 ms on its line 22, so its invocation holds \<open>[1 ms, 2 ms]\<close> when
  the return is reported; the dispatch that follows folds both into entry 0 of the record,
  which becomes \<open>[3 ms, 0]\<close>: the index of the loop in \<^verbatim>\<open>pop_frame\<close> stays 0.
\<close>
theorem pop_frame_folds_into_first_line:
  "map_option frame_lines (top_frame (run demo_env two_line_events (start Module_init)))
     = Some [\<lparr>internal = 1000000, external = 0\<rparr>, \<lparr>internal = 2000000, external = 0\<rparr>]
   \<and> map_option line_time_internal
         (the_record 2 (run demo_env two_line_events (start Module_init))) = Some [0, 0]
   \<and> map_option line_time_internal
         (the_record 2 (run demo_env (two_line_events @ [py_event PyTrace_LINE 1 13 7000000])
                          (start Module_init))) = Some [3000000, 0]"
  by (simp add: two_line_events_def run_defs engine_defs the_record_def top_frame_def
        get_lines_loop_eq)

subsection \<open>Foreign calls before the first line event\<close>

text \<open>
  C4 (the current line of an invocation is never accessed before a line event was seen for
  it, so the lookup of \<^verbatim>\<open>current_line\<close> cannot go out of bounds on the foreign-call path).
  The code has no such guard: when a foreign call is the first thing reported for a new
  invocation, \<^verbatim>\<open>finish_ccall\<close> computes the index \<open>0 - 10 - 1\<close> on \<^verbatim>\<open>size_t\<close> and the
  lookup throws. When the foreign call is made while no invocation is on the stack, the
  same method takes the top of an empty stack.
\<close>
theorem finish_ccall_before_first_line_throws:
  "run demo_env early_c_call_events (start Module_init) = Inl out_of_range
   \<and> run demo_env toplevel_c_call_events (start Module_init) = Inl empty_stack"
  by (simp add: early_c_call_events_def toplevel_c_call_events_def run_defs engine_defs
        get_lines_loop_eq)

subsection \<open>The report\<close>

lemma dump_lines_no_error:
  assumes "length (lines fn) \<le> length (line_time fn)"
    and "length (lines fn) \<le> length (line_time_internal fn)"
  shows "\<exists>p. dump_lines i fn printed = Inr p"
  using assms
proof (induction i fn printed rule: dump_lines.induct)
  case (1 i fn printed)
  show ?case
  proof (cases "i < length (lines fn)")
    case False
    then show ?thesis by (subst dump_lines.simps) simp
  next
    case True
    with "1.prems" have a: "vector_at (line_time fn) i = Inr (line_time fn ! i)"
      and b: "vector_at (line_time_internal fn) i = Inr (line_time_internal fn ! i)"
      and c: "vector_at (lines fn) i = Inr (lines fn ! i)"
      by (simp_all add: vector_at_def)
    from "1.IH" [OF True a b c refl "1.prems"] True a b c show ?thesis
      by (subst dump_lines.simps) (simp add: Let_def)
  qed
qed

lemma dump_functions_no_error:
  assumes "list_all (record_sized env) m"
  shows "\<exists>p. dump_functions m printed = Inr p"
  using assms
proof (induction m arbitrary: printed)
  case Nil
  then show ?case by simp
next
  case (Cons pair m)
  from Cons.prems have "record_sized env pair" by simp
  then have "length (lines (snd pair)) \<le> length (line_time (snd pair))"
    and "length (lines (snd pair)) \<le> length (line_time_internal (snd pair))"
    by (auto simp: record_sized_def split: option.splits)
  from dump_lines_no_error [OF this] obtain q where
    "dump_lines 0 (snd pair)
       (printed @ [Text ''Name: '', Text (name (snd pair)), Text '', '',
                   Seconds (overhead (snd pair)), Endl]) = Inr q" by blast
  moreover from Cons.prems Cons.IH [of q] obtain p where "dump_functions m q = Inr p" by auto
  ultimately show ?case by (simp add: Let_def)
qed

text \<open>
  C9 (the report does not depend on its destination argument): for any two paths \<^verbatim>\<open>dump\<close>
  gives the same result; when it does not throw it returns status 0 and changes nothing
  but the standard output, to which it appends; and it does not throw in a state where
  the arrays of the records have their sizes, as in every state a run reaches.
\<close>
theorem dump_ignores_path:
  "dump path1 s = dump path2 s
   \<and> ((\<exists>e. dump path1 s = Inl e) \<or> (\<exists>out. dump path1 s = Inr (0, s\<lparr>cout := cout s @ out\<rparr>)))
   \<and> (sized env s \<longrightarrow> (\<exists>out. dump path1 s = Inr (0, s\<lparr>cout := cout s @ out\<rparr>)))"
proof (intro conjI impI)
  show "dump path1 s = dump path2 s" by (simp add: dump_def)
next
  show alt: "(\<exists>e. dump path1 s = Inl e) \<or> (\<exists>out. dump path1 s = Inr (0, s\<lparr>cout := cout s @ out\<rparr>))"
  proof (cases "dump_functions (py_functions s) (cout s)")
    case (Inl e)
    then show ?thesis by (simp add: dump_def)
  next
    case (Inr q)
    from dump_functions_appends [OF Inr] obtain o1 where q: "q = cout s @ o1" by blast
    from dump_c_functions_appends [of "c_functions s" q] obtain o2
      where "dump_c_functions (c_functions s) q = q @ o2" by blast
    with Inr q have "dump path1 s = Inr (0, s\<lparr>cout := cout s @ (o1 @ o2)\<rparr>)"
      by (simp add: dump_def)
    then show ?thesis by blast
  qed
  assume "sized env s"
  then have "list_all (record_sized env) (py_functions s)" by (simp add: sized_def)
  from dump_functions_no_error [OF this, of "cout s"] obtain p where
    "dump_functions (py_functions s) (cout s) = Inr p" by blast
  then have "\<exists>r. dump path1 s = Inr r" by (simp add: dump_def)
  with alt show "\<exists>out. dump path1 s = Inr (0, s\<lparr>cout := cout s @ out\<rparr>)" by auto
qed

theorem dump_ignores_path_witness:
  "sized demo_env caller_running
   \<and> dump ''profile.txt'' caller_running = dump ''/dev/null'' caller_running
   \<and> dump ''profile.txt'' caller_running
       = Inr (0, caller_running\<lparr>cout := cout caller_running
                @ [Text ''Name: '', Text ''caller'', Text '', '', Seconds 1000000, Endl,
                   Seconds 0, Chr CHR ''('', Seconds 0, Chr CHR ''/'', Seconds 0, Chr CHR '')'',
                   Text '': '', Text ''  x = 1'',
                   Seconds 0, Chr CHR ''('', Seconds 0, Chr CHR ''/'', Seconds 0, Chr CHR '')'',
                   Text '': '', Text ''  callee()'',
                   Seconds 0, Chr CHR ''('', Seconds 0, Chr CHR ''/'', Seconds 0, Chr CHR '')'',
                   Text '': '', Text ''  return x'']\<rparr>)"
proof -
  have h: "sized demo_env caller_running"
    by (simp add: caller_running_def run_defs engine_defs the_state_def get_lines_loop_eq
        sized_def record_sized_def frame_sized_def)
  have pf: "py_functions caller_running
      = [(1, \<lparr>name = ''caller'', internal_time = 1000000, code = 1,
              lines = [''  x = 1'', ''  callee()'', ''  return x''],
              line_time = [0, 0, 0], line_time_internal = [0, 0, 0]\<rparr>)]"
    and cf: "c_functions caller_running = []"
    by (simp_all add: caller_running_def run_defs engine_defs the_state_def get_lines_loop_eq)
  have d: "dump_functions (py_functions caller_running) (cout caller_running)
       = Inr (cout caller_running
                @ [Text ''Name: '', Text ''caller'', Text '', '', Seconds 1000000, Endl,
                   Seconds 0, Chr CHR ''('', Seconds 0, Chr CHR ''/'', Seconds 0, Chr CHR '')'',
                   Text '': '', Text ''  x = 1'',
                   Seconds 0, Chr CHR ''('', Seconds 0, Chr CHR ''/'', Seconds 0, Chr CHR '')'',
                   Text '': '', Text ''  callee()'',
                   Seconds 0, Chr CHR ''('', Seconds 0, Chr CHR ''/'', Seconds 0, Chr CHR '')'',
                   Text '': '', Text ''  return x''])"
    unfolding pf by (simp add: dump_lines.simps vector_at_def overhead_def)
  from dump_ignores_path [of "''profile.txt''" caller_running "''/dev/null''" demo_env] h
  have "dump ''profile.txt'' caller_running = dump ''/dev/null'' caller_running"
    by blast
  moreover have "dump ''profile.txt'' caller_running
       = Inr (0, caller_running\<lparr>cout := cout caller_running
                @ [Text ''Name: '', Text ''caller'', Text '', '', Seconds 1000000, Endl,
                   Seconds 0, Chr CHR ''('', Seconds 0, Chr CHR ''/'', Seconds 0, Chr CHR '')'',
                   Text '': '', Text ''  x = 1'',
                   Seconds 0, Chr CHR ''('', Seconds 0, Chr CHR ''/'', Seconds 0, Chr CHR '')'',
                   Text '': '', Text ''  callee()'',
                   Seconds 0, Chr CHR ''('', Seconds 0, Chr CHR ''/'', Seconds 0, Chr CHR '')'',
                   Text '': '', Text ''  return x'']\<rparr>)"
    by (simp add: dump_def d cf)
  ultimately show ?thesis using h by blast
qed

subsection \<open>Stopping and restarting\<close>

text \<open>
  C8 (\<^verbatim>\<open>stop()\<close> followed by \<^verbatim>\<open>start()\<close> leaves the accumulated state as it was, and
  later events add to the same store): both maps of records and the stack of invocations
  are unchanged, and when a callable that already has a record is called after the restart,
  the interval up to the next event is added to the overhead of that same record, whose
  other fields, like all other records, stay as they were.
\<close>
theorem stop_start_keeps_store:
  assumes "map_of (py_functions s) c = Some fn"
    and "getsourcelines env c = Some src"
    and "f_code frame = c" and "f_code frame' = c"
  shows "py_functions (start (stop s)) = py_functions s
    \<and> c_functions (start (stop s)) = c_functions s
    \<and> frame_stack (start (stop s)) = frame_stack s
    \<and> (\<exists>s1 s2. profile env PyTrace_CALL frame arg t0 t1 (start (stop s)) = Inr s1
          \<and> profile env PyTrace_LINE frame' arg' t2 t3 s1 = Inr s2
          \<and> map_of (py_functions s2) c = Some (fn\<lparr>internal_time := internal_time fn + (t2 - t1)\<rparr>)
          \<and> (\<forall>c'. c' \<noteq> c \<longrightarrow> map_of (py_functions s2) c' = map_of (py_functions s) c')
          \<and> c_functions s2 = c_functions s)"
proof -
  obtain src_lines line_start where src: "src = (src_lines, line_start)" by (cases src)
  have keep: "py_functions (start (stop s)) = py_functions s"
    "c_functions (start (stop s)) = c_functions s" "frame_stack (start (stop s)) = frame_stack s"
    by (simp_all add: start_def stop_def)
  let ?fr = "FrameState_init c (length (get_lines_loop 1 src_lines [])) (PyLong_AsUnsignedLongLong line_start)"
  let ?s1 = "(start (stop s))\<lparr>last_instruction_end := t0, frame_stack := ?fr # frame_stack s,
                 last_instruction := kCall, last_instruction_start := t1\<rparr>"
  have 1: "profile env PyTrace_CALL frame arg t0 t1 (start (stop s)) = Inr ?s1"
    using assms src
    by (simp add: profile_def finish_def finish_origin_def begin_event_def profile_call_def
        add_function_def map_count_def emplace_frame_def get_lines_def start_def stop_def)
  let ?s2 = "profile_line frame' (?s1\<lparr>last_instruction_end := t2,
       py_functions := map_store c (fn\<lparr>internal_time := internal_time fn + (t2 - t1)\<rparr>) (py_functions s),
       cout := cout s @ [Text ''Internal: '', Seconds (internal_time fn + (t2 - t1)), Endl]\<rparr>)\<lparr>last_instruction_start := t3\<rparr>"
  have 2: "profile env PyTrace_LINE frame' arg' t2 t3 ?s1 = Inr ?s2"
    using assms
    by (simp add: profile_def finish_def finish_call_def begin_event_def map_at_def elapsed_def
        BaseFunction_add_elapsed_internal_def start_def stop_def)
  have 3: "py_functions ?s2 = map_store c (fn\<lparr>internal_time := internal_time fn + (t2 - t1)\<rparr>) (py_functions s)"
    "c_functions ?s2 = c_functions s"
    by (simp_all add: profile_line_def start_def stop_def)
  show ?thesis
    using keep 1 2 3 by (simp add: map_of_map_store)
qed


theorem stop_start_keeps_store_witness:
  "map_of (py_functions (the_state (run demo_env single_call_events (start Module_init)))) 1
     = Some \<lparr>name = ''caller'', internal_time = 1000000, code = 1,
             lines = [''  x = 1'', ''  callee()'', ''  return x''],
             line_time = [0, 0, 0], line_time_internal = [0, 0, 0]\<rparr>
   \<and> getsourcelines demo_env 1
       = Some ([''def caller():'', ''  x = 1'', ''  callee()'', ''  return x''], 10)
   \<and> (\<exists>s1 s2.
         profile demo_env PyTrace_CALL \<lparr>f_code = 1, f_lineno = 10\<rparr> builtin_len 5000000 5000000
           (start (stop (the_state (run demo_env single_call_events (start Module_init))))) = Inr s1
         \<and> profile demo_env PyTrace_LINE \<lparr>f_code = 1, f_lineno = 11\<rparr> builtin_len 8000000 8000000 s1
             = Inr s2
         \<and> map_option overhead (map_of (py_functions s2) 1) = Some 4000000)"
proof -
  let ?s = "the_state (run demo_env single_call_events (start Module_init))"
  let ?fn = "\<lparr>name = ''caller'', internal_time = 1000000, code = 1,
             lines = [''  x = 1'', ''  callee()'', ''  return x''],
             line_time = [0, 0, 0], line_time_internal = [0, 0, 0]\<rparr>"
  have h1: "map_of (py_functions ?s) 1 = Some ?fn"
    by (simp add: single_call_events_def run_defs engine_defs the_state_def get_lines_loop_eq)
  have h2: "getsourcelines demo_env 1
       = Some ([''def caller():'', ''  x = 1'', ''  callee()'', ''  return x''], 10)"
    by (simp add: demo_env_def)
  have h3: "f_code \<lparr>f_code = 1, f_lineno = 10\<rparr> = (1::nat)" by simp
  have h4: "f_code \<lparr>f_code = 1, f_lineno = 11\<rparr> = (1::nat)" by simp
  from stop_start_keeps_store [OF h1 h2 h3 h4, of builtin_len 5000000 5000000 builtin_len 8000000 8000000]
  obtain s1 s2 where
    "profile demo_env PyTrace_CALL \<lparr>f_code = 1, f_lineno = 10\<rparr> builtin_len 5000000 5000000
           (start (stop ?s)) = Inr s1"
    "profile demo_env PyTrace_LINE \<lparr>f_code = 1, f_lineno = 11\<rparr> builtin_len 8000000 8000000 s1 = Inr s2"
    "map_of (py_functions s2) 1 = Some (?fn\<lparr>internal_time := internal_time ?fn + (8000000 - 5000000)\<rparr>)"
    by blast
  then show ?thesis using h1 h2 by (auto simp: overhead_def)
qed

subsection \<open>Foreign calls\<close>

text \<open>
  C5 (a foreign call that returns after 3 ms, followed 1 ms later by a line event, while an
  invocation with an observed current line is on top of the stack): whatever state the
  foreign call is reported in, if its dispatch leaves such an invocation on top, then the
  return and the line event are dispatched without error, the record of the foreign
  callable gains the interval between call and return as overhead, the current line of the
  top invocation gains the same interval as external time (its internal time is
  untouched), and the overhead of the top invocation gains the interval between the return
  and the line event.
\<close>
theorem foreign_call_bracket:
  assumes call: "profile env PyTrace_C_CALL frame_c arg t_c t_c' s = Inr s1"
    and stack: "frame_stack s1 = fr # rest"
    and line: "current_line fr = Inr i"
  shows "\<exists>s2 s3 fr'.
           profile env PyTrace_C_RETURN frame_r arg_r t_r t_r' s1 = Inr s2
         \<and> profile env PyTrace_LINE frame_l arg_l t_l t_l' s2 = Inr s3
         \<and> c_overhead s3 (ob_str arg) = c_overhead s1 (ob_str arg) + (t_r - t_c')
         \<and> frame_stack s3 = fr' # rest
         \<and> external (frame_lines fr' ! i) = external (frame_lines fr ! i) + (t_r - t_c')
         \<and> internal (frame_lines fr' ! i) = internal (frame_lines fr ! i)
         \<and> frame_internal fr' = frame_internal fr + (t_l - t_r')"
proof -
  from call obtain sa where
    fin: "finish frame_c (s\<lparr>last_instruction_end := t_c\<rparr>) = Inr sa"
    and s1: "s1 = (profile_c_call frame_c arg sa)\<lparr>last_instruction_start := t_c'\<rparr>"
    by (auto simp: profile_def begin_event_def split: sum.splits)
  have li: "last_instruction s1 = kCCall" and lc: "last_c_name s1 = ob_str arg"
    and ls: "last_instruction_start s1 = t_c'"
    by (simp_all add: s1 profile_c_call_def add_c_function_def Let_def)
  have "map_of (c_functions s1) (ob_str arg) \<noteq> None"
    by (simp add: s1 profile_c_call_def add_c_function_def Let_def map_of_map_emplace split: option.splits)
  then obtain fn where fn: "map_of (c_functions s1) (ob_str arg) = Some fn" by blast
  from line have i: "i < length (frame_lines fr)"
    by (auto simp: current_line_def Let_def split: if_splits)
  let ?fr2 = "fr\<lparr>frame_lines := (frame_lines fr)[i := LineState_add_external (t_r - t_c') (frame_lines fr ! i)]\<rparr>"
  let ?s2 = "s1\<lparr>last_instruction_end := t_r,
                c_functions := map_store (ob_str arg) (fn\<lparr>internal_time := internal_time fn + (t_r - t_c')\<rparr>) (c_functions s1),
                cout := cout s1 @ [Text ''Internal: '', Seconds (internal_time fn + (t_r - t_c')), Endl],
                frame_stack := ?fr2 # rest,
                last_instruction := kCReturn, last_instruction_start := t_r'\<rparr>"
  have 2: "profile env PyTrace_C_RETURN frame_r arg_r t_r t_r' s1 = Inr ?s2"
    using li lc ls fn stack line
    by (simp add: profile_def finish_def finish_ccall_def begin_event_def map_at_def elapsed_def
        BaseFunction_add_elapsed_internal_def on_current_line_def profile_c_return_def)
  let ?fr3 = "set_current_line (word_of_int (PyFrame_GetLineNumber frame_l)) (FrameState_add_internal (t_l - t_r') ?fr2)"
  let ?s3 = "?s2\<lparr>last_instruction_end := t_l, frame_stack := ?fr3 # rest, last_instruction := kLine,
                last_instruction_start := t_l'\<rparr>"
  have 3: "profile env PyTrace_LINE frame_l arg_l t_l t_l' ?s2 = Inr ?s3"
    by (simp add: profile_def finish_def finish_creturn_def begin_event_def elapsed_def
        profile_line_def)
  have 4: "c_overhead ?s3 (ob_str arg) = c_overhead s1 (ob_str arg) + (t_r - t_c')"
    using fn by (simp add: c_overhead_def map_of_map_store overhead_def)
  have 5: "external (frame_lines ?fr3 ! i) = external (frame_lines fr ! i) + (t_r - t_c')"
    "internal (frame_lines ?fr3 ! i) = internal (frame_lines fr ! i)"
    "frame_internal ?fr3 = frame_internal fr + (t_l - t_r')"
    using i by (simp_all add: set_current_line_def FrameState_add_internal_def LineState_add_external_def)
  have 6: "frame_stack ?s3 = ?fr3 # rest" by simp
  show ?thesis
    using 2 3 4 5 6 by blast
qed


theorem foreign_call_bracket_witness:
  "profile demo_env PyTrace_C_CALL \<lparr>f_code = 1, f_lineno = 12\<rparr> builtin_len 2000000 2000000
       caller_running
     = Inr (the_state (profile demo_env PyTrace_C_CALL \<lparr>f_code = 1, f_lineno = 12\<rparr> builtin_len
                         2000000 2000000 caller_running))
   \<and> frame_stack (the_state (profile demo_env PyTrace_C_CALL \<lparr>f_code = 1, f_lineno = 12\<rparr>
                               builtin_len 2000000 2000000 caller_running))
       = [\<lparr>starting_line = 10, current_line_no = 12, function_key = 1,
           frame_lines = [\<lparr>internal = 0, external = 0\<rparr>, \<lparr>internal = 1000000, external = 0\<rparr>,
                          \<lparr>internal = 0, external = 0\<rparr>],
           frame_internal = 0\<rparr>]
   \<and> (\<exists>s2 s3 fr'.
         profile demo_env PyTrace_C_RETURN \<lparr>f_code = 1, f_lineno = 12\<rparr> builtin_len 5000000 5000000
             (the_state (profile demo_env PyTrace_C_CALL \<lparr>f_code = 1, f_lineno = 12\<rparr> builtin_len
                           2000000 2000000 caller_running)) = Inr s2
         \<and> profile demo_env PyTrace_LINE \<lparr>f_code = 1, f_lineno = 13\<rparr> builtin_len 6000000 6000000 s2
             = Inr s3
         \<and> c_overhead s3 ''<built-in function len>'' = 3000000
         \<and> frame_stack s3 = [fr']
         \<and> external (frame_lines fr' ! 1) = 3000000
         \<and> internal (frame_lines fr' ! 1) = 1000000
         \<and> frame_internal fr' = 1000000)"
proof -
  let ?s1 = "the_state (profile demo_env PyTrace_C_CALL \<lparr>f_code = 1, f_lineno = 12\<rparr> builtin_len
                           2000000 2000000 caller_running)"
  let ?fr = "\<lparr>starting_line = 10, current_line_no = 12, function_key = 1,
           frame_lines = [\<lparr>internal = 0, external = 0\<rparr>, \<lparr>internal = 1000000, external = 0\<rparr>,
                          \<lparr>internal = 0, external = 0\<rparr>],
           frame_internal = 0\<rparr>"
  have h1: "profile demo_env PyTrace_C_CALL \<lparr>f_code = 1, f_lineno = 12\<rparr> builtin_len 2000000 2000000
       caller_running = Inr ?s1"
    by (simp add: caller_running_def run_defs engine_defs the_state_def get_lines_loop_eq)
  have h2: "frame_stack ?s1 = ?fr # []"
    by (simp add: caller_running_def run_defs engine_defs the_state_def get_lines_loop_eq)
  have h3: "current_line ?fr = Inr 1"
    by (simp add: current_line_def)
  have h4: "c_overhead ?s1 (ob_str builtin_len) = 0"
    by (simp add: caller_running_def run_defs engine_defs the_state_def get_lines_loop_eq
        c_overhead_def overhead_def)
  from foreign_call_bracket [OF h1 h2 h3,
      where frame_r = "\<lparr>f_code = 1, f_lineno = 12\<rparr>" and arg_r = builtin_len
        and t_r = 5000000 and t_r' = 5000000
        and frame_l = "\<lparr>f_code = 1, f_lineno = 13\<rparr>" and arg_l = builtin_len
        and t_l = 6000000 and t_l' = 6000000]
  show ?thesis using h1 h2 h4 by (simp add: builtin_len_def)
qed

lemma profile_c_return_after_c_call:
  assumes "last_instruction s = kCCall"
    and "map_of (c_functions s) (last_c_name s) = Some fn"
    and "frame_stack s = fr # rest"
    and "current_line fr = Inr i"
    and "w = PyTrace_C_RETURN \<or> w = PyTrace_C_EXCEPTION"
  shows "profile env w frame arg t t' s =
     Inr (s\<lparr>last_instruction_end := t,
            c_functions := map_store (last_c_name s)
                             (fn\<lparr>internal_time := internal_time fn + (t - last_instruction_start s)\<rparr>)
                             (c_functions s),
            cout := cout s @ [Text ''Internal: '',
                              Seconds (internal_time fn + (t - last_instruction_start s)), Endl],
            frame_stack :=
              fr\<lparr>frame_lines := (frame_lines fr)
                     [i := LineState_add_external (t - last_instruction_start s) (frame_lines fr ! i)]\<rparr>
              # rest,
            last_instruction := kCReturn, last_instruction_start := t'\<rparr>)"
  using assms
  by (auto simp: profile_def finish_def finish_ccall_def begin_event_def map_at_def elapsed_def
        BaseFunction_add_elapsed_internal_def on_current_line_def profile_c_return_def)

lemma profile_c_call_after_c_return:
  assumes "last_instruction s = kCReturn" and "frame_stack s = fr # rest"
  shows "profile env PyTrace_C_CALL frame arg t t' s =
     Inr (s\<lparr>last_instruction_end := t,
            frame_stack := FrameState_add_internal (t - last_instruction_start s) fr # rest,
            last_c_name := ob_str arg,
            c_functions := map_emplace (ob_str arg) (BaseFunction_init (ob_str arg)) (c_functions s),
            last_instruction := kCCall, last_instruction_start := t'\<rparr>)"
  using assms
  by (simp add: profile_def finish_def finish_creturn_def begin_event_def elapsed_def
        profile_c_call_def add_c_function_def)

lemma profile_c_call_registers:
  assumes "profile env PyTrace_C_CALL frame arg t t' s = Inr s1"
  shows "last_instruction s1 = kCCall \<and> last_c_name s1 = ob_str arg
         \<and> last_instruction_start s1 = t'
         \<and> (\<exists>fn. map_of (c_functions s1) (ob_str arg) = Some fn)"
proof -
  from assms obtain sa where
    s1: "s1 = (profile_c_call frame arg sa)\<lparr>last_instruction_start := t'\<rparr>"
    by (auto simp: profile_def begin_event_def split: sum.splits)
  show ?thesis
    by (simp add: s1 profile_c_call_def add_c_function_def Let_def map_of_map_emplace
        split: option.splits)
qed

text \<open>
  C6 (foreign callables are recorded under their printed name): take two foreign calls in
  a row, each followed by its return, while an invocation with an observed current line is
  on top of the stack; the two targets are arbitrary objects, so their addresses may
  differ. When both print the same string, both intervals are added to the overhead of the
  one record under that string, and registering the second target leaves the store as it
  was, so nothing is reset; when the strings differ, each record gains the interval of its
  own call only. No other record changes.
\<close>
theorem foreign_records_keyed_by_name:
  assumes call: "profile env PyTrace_C_CALL frame_a arg_a t_a t_a' s = Inr s1"
    and stack: "frame_stack s1 = fr # rest"
    and line: "current_line fr = Inr i"
  shows "\<exists>s2 s3 s4.
           profile env PyTrace_C_RETURN frame_b arg_b t_b t_b' s1 = Inr s2
         \<and> profile env PyTrace_C_CALL frame_c arg_c t_c t_c' s2 = Inr s3
         \<and> profile env PyTrace_C_RETURN frame_d arg_d t_d t_d' s3 = Inr s4
         \<and> c_overhead s4 (ob_str arg_c) =
             (if ob_str arg_c = ob_str arg_a
              then c_overhead s1 (ob_str arg_a) + (t_b - t_a') + (t_d - t_c')
              else c_overhead s1 (ob_str arg_c) + (t_d - t_c'))
         \<and> c_overhead s4 (ob_str arg_a) =
             (if ob_str arg_c = ob_str arg_a
              then c_overhead s1 (ob_str arg_a) + (t_b - t_a') + (t_d - t_c')
              else c_overhead s1 (ob_str arg_a) + (t_b - t_a'))
         \<and> c_functions s3 =
             (if ob_str arg_c = ob_str arg_a then c_functions s2
              else map_emplace (ob_str arg_c) (BaseFunction_init (ob_str arg_c)) (c_functions s2))
         \<and> (\<exists>ra rc. map_of (c_functions s4)
                        = (map_of (c_functions s1))(ob_str arg_a \<mapsto> ra, ob_str arg_c \<mapsto> rc))"
proof -
  from profile_c_call_registers [OF call] obtain fn where
    li: "last_instruction s1 = kCCall" and lc: "last_c_name s1 = ob_str arg_a"
    and ls: "last_instruction_start s1 = t_a'"
    and fn: "map_of (c_functions s1) (ob_str arg_a) = Some fn"
    by blast
  let ?a = "ob_str arg_a" and ?c = "ob_str arg_c"
  let ?fn' = "fn\<lparr>internal_time := internal_time fn + (t_b - t_a')\<rparr>"
  from profile_c_return_after_c_call [OF li _ stack line, of fn PyTrace_C_RETURN env frame_b arg_b t_b t_b']
    fn lc ls
  obtain s2 where 2: "profile env PyTrace_C_RETURN frame_b arg_b t_b t_b' s1 = Inr s2"
    and li2: "last_instruction s2 = kCReturn" and ls2: "last_instruction_start s2 = t_b'"
    and st2: "frame_stack s2 =
                fr\<lparr>frame_lines := (frame_lines fr)
                     [i := LineState_add_external (t_b - t_a') (frame_lines fr ! i)]\<rparr> # rest"
    and cf2: "c_functions s2 = map_store ?a ?fn' (c_functions s1)"
    by simp
  from profile_c_call_after_c_return [OF li2 st2, of env frame_c arg_c t_c t_c'] ls2
  obtain s3 where 3: "profile env PyTrace_C_CALL frame_c arg_c t_c t_c' s2 = Inr s3"
    and li3: "last_instruction s3 = kCCall" and lc3: "last_c_name s3 = ?c"
    and ls3: "last_instruction_start s3 = t_c'"
    and st3: "frame_stack s3 =
                FrameState_add_internal (t_c - t_b')
                  (fr\<lparr>frame_lines := (frame_lines fr)
                     [i := LineState_add_external (t_b - t_a') (frame_lines fr ! i)]\<rparr>) # rest"
    and cf3: "c_functions s3 = map_emplace ?c (BaseFunction_init ?c) (c_functions s2)"
    by simp
  have line3: "current_line (FrameState_add_internal (t_c - t_b')
                  (fr\<lparr>frame_lines := (frame_lines fr)
                     [i := LineState_add_external (t_b - t_a') (frame_lines fr ! i)]\<rparr>)) = Inr i"
    using line by (simp add: current_line_def FrameState_add_internal_def)
  let ?fn3 = "if ?c = ?a then ?fn'
              else (case map_of (c_functions s1) ?c of None \<Rightarrow> BaseFunction_init ?c | Some r \<Rightarrow> r)"
  have fn3: "map_of (c_functions s3) (last_c_name s3) = Some ?fn3"
    by (simp add: lc3 cf3 cf2 map_of_map_emplace map_of_map_store split: option.splits)
  from profile_c_return_after_c_call [OF li3 fn3 st3 line3, of PyTrace_C_RETURN env frame_d arg_d t_d t_d']
    lc3 ls3
  obtain s4 where 4: "profile env PyTrace_C_RETURN frame_d arg_d t_d t_d' s3 = Inr s4"
    and cf4: "c_functions s4 =
                map_store ?c (?fn3\<lparr>internal_time := internal_time ?fn3 + (t_d - t_c')\<rparr>) (c_functions s3)"
    by simp
  have m4: "map_of (c_functions s4) =
              (map_of (c_functions s1))(?a \<mapsto> ?fn',
                 ?c \<mapsto> ?fn3\<lparr>internal_time := internal_time ?fn3 + (t_d - t_c')\<rparr>)"
    by (auto simp: cf4 cf3 cf2 map_of_map_store map_of_map_emplace fun_eq_iff split: option.splits)
  have o_c: "c_overhead s4 ?c =
             (if ?c = ?a then c_overhead s1 ?a + (t_b - t_a') + (t_d - t_c')
              else c_overhead s1 ?c + (t_d - t_c'))"
    using fn by (simp add: c_overhead_def m4 overhead_def BaseFunction_init_def split: option.splits)
  have o_a: "c_overhead s4 ?a =
             (if ?c = ?a then c_overhead s1 ?a + (t_b - t_a') + (t_d - t_c')
              else c_overhead s1 ?a + (t_b - t_a'))"
    using fn by (simp add: c_overhead_def m4 overhead_def)
  have reg: "c_functions s3 =
               (if ?c = ?a then c_functions s2
                else map_emplace ?c (BaseFunction_init ?c) (c_functions s2))"
    by (simp add: cf3 cf2 map_emplace_def map_of_map_store)
  show ?thesis
    using 2 3 4 o_c o_a reg m4 by blast
qed


theorem foreign_records_keyed_by_name_witness:
  "ob_addr builtin_len \<noteq> ob_addr shadowed_len \<and> ob_str builtin_len = ob_str shadowed_len
   \<and> profile demo_env PyTrace_C_CALL \<lparr>f_code = 1, f_lineno = 12\<rparr> builtin_len 2000000 2000000
         caller_running
       = Inr (the_state (profile demo_env PyTrace_C_CALL \<lparr>f_code = 1, f_lineno = 12\<rparr> builtin_len
                           2000000 2000000 caller_running))
   \<and> (\<exists>s2 s3 s4.
         profile demo_env PyTrace_C_RETURN \<lparr>f_code = 1, f_lineno = 12\<rparr> builtin_len 5000000 5000000
             (the_state (profile demo_env PyTrace_C_CALL \<lparr>f_code = 1, f_lineno = 12\<rparr> builtin_len
                           2000000 2000000 caller_running)) = Inr s2
         \<and> profile demo_env PyTrace_C_CALL \<lparr>f_code = 1, f_lineno = 12\<rparr> shadowed_len 6000000 6000000 s2
             = Inr s3
         \<and> profile demo_env PyTrace_C_RETURN \<lparr>f_code = 1, f_lineno = 12\<rparr> shadowed_len 8000000 8000000 s3
             = Inr s4
         \<and> c_overhead s4 ''<built-in function len>'' = 5000000
         \<and> c_functions s3 = c_functions s2)"
proof -
  let ?s1 = "the_state (profile demo_env PyTrace_C_CALL \<lparr>f_code = 1, f_lineno = 12\<rparr> builtin_len
                           2000000 2000000 caller_running)"
  let ?fr = "\<lparr>starting_line = 10, current_line_no = 12, function_key = 1,
           frame_lines = [\<lparr>internal = 0, external = 0\<rparr>, \<lparr>internal = 1000000, external = 0\<rparr>,
                          \<lparr>internal = 0, external = 0\<rparr>],
           frame_internal = 0\<rparr>"
  have h0: "ob_addr builtin_len \<noteq> ob_addr shadowed_len \<and> ob_str builtin_len = ob_str shadowed_len"
    by (simp add: builtin_len_def shadowed_len_def)
  have h1: "profile demo_env PyTrace_C_CALL \<lparr>f_code = 1, f_lineno = 12\<rparr> builtin_len 2000000 2000000
       caller_running = Inr ?s1"
    by (simp add: caller_running_def run_defs engine_defs the_state_def get_lines_loop_eq)
  have h2: "frame_stack ?s1 = ?fr # []"
    by (simp add: caller_running_def run_defs engine_defs the_state_def get_lines_loop_eq)
  have h3: "current_line ?fr = Inr 1"
    by (simp add: current_line_def)
  have h4: "c_overhead ?s1 (ob_str builtin_len) = 0"
    by (simp add: caller_running_def run_defs engine_defs the_state_def get_lines_loop_eq
        c_overhead_def overhead_def)
  from foreign_records_keyed_by_name [OF h1 h2 h3,
      where frame_b = "\<lparr>f_code = 1, f_lineno = 12\<rparr>" and arg_b = builtin_len
        and t_b = 5000000 and t_b' = 5000000
        and frame_c = "\<lparr>f_code = 1, f_lineno = 12\<rparr>" and arg_c = shadowed_len
        and t_c = 6000000 and t_c' = 6000000
        and frame_d = "\<lparr>f_code = 1, f_lineno = 12\<rparr>" and arg_d = shadowed_len
        and t_d = 8000000 and t_d' = 8000000]
  show ?thesis using h0 h1 h4 by (simp add: builtin_len_def shadowed_len_def) blast
qed

subsection \<open>Exception events\<close>

text \<open>
  C3 as stated (the interval that follows an exception event is attributed to no bucket,
  so no accumulator changes) does not hold. A foreign exception is booked as a foreign
  return, so the 4 ms until the next event are added to the overhead of the invocation on
  top of the stack; an exception event of the interpreted code records no kind at all, so
  the 4 ms that follow it are closed by the rule of the line event before it and the
  internal time of that line grows from 2 ms to 6 ms.
\<close>
theorem exception_interval_is_attributed:
  "map_option frame_internal
      (top_frame (run demo_env (butlast c_exception_events) (start Module_init))) = Some 0
   \<and> map_option frame_internal
         (top_frame (run demo_env c_exception_events (start Module_init))) = Some 4000000
   \<and> map_option frame_lines
         (top_frame (run demo_env (butlast exception_events) (start Module_init)))
       = Some [\<lparr>internal = 0, external = 0\<rparr>, \<lparr>internal = 2000000, external = 0\<rparr>,
               \<lparr>internal = 0, external = 0\<rparr>]
   \<and> map_option frame_lines
         (top_frame (run demo_env exception_events (start Module_init)))
       = Some [\<lparr>internal = 0, external = 0\<rparr>, \<lparr>internal = 6000000, external = 0\<rparr>,
               \<lparr>internal = 0, external = 0\<rparr>]"
  by (simp add: c_exception_events_def exception_events_def run_defs engine_defs top_frame_def
        get_lines_loop_eq)

text \<open>
  C3, amended: the begin phase of an exception event and of a foreign exception event
  updates no accumulator: after the first the records, the stack and its line states are
  as before, and the second only records the kind \<open>kCReturn\<close>, as a foreign return does.
  The finish rules of the kinds \<open>kException\<close> and \<open>kCException\<close> change nothing; the
  interval that follows a foreign exception is closed by the rule of \<open>kCReturn\<close>, which
  adds it to the overhead of the invocation on top of the stack.
\<close>
theorem exception_events_book_nothing:
  "(\<exists>s'. begin_event env PyTrace_EXCEPTION frame arg s = Inr s'
         \<and> py_functions s' = py_functions s \<and> c_functions s' = c_functions s
         \<and> frame_stack s' = frame_stack s)
   \<and> begin_event env PyTrace_C_EXCEPTION frame arg s = Inr (s\<lparr>last_instruction := kCReturn\<rparr>)
   \<and> finish frame (s\<lparr>last_instruction := kException\<rparr>) = Inr (s\<lparr>last_instruction := kException\<rparr>)
   \<and> finish frame (s\<lparr>last_instruction := kCException\<rparr>) = Inr (s\<lparr>last_instruction := kCException\<rparr>)
   \<and> finish frame (s\<lparr>last_instruction := kCReturn, last_instruction_end := t\<rparr>)
       = (case frame_stack s of
            [] \<Rightarrow> Inl empty_stack
          | fr # rest \<Rightarrow>
              Inr (s\<lparr>last_instruction := kCReturn, last_instruction_end := t,
                     frame_stack :=
                       fr\<lparr>frame_internal := frame_internal fr + (t - last_instruction_start s)\<rparr>
                       # rest\<rparr>))"
proof -
  have a: "\<exists>s'. begin_event env PyTrace_EXCEPTION frame arg s = Inr s'
         \<and> py_functions s' = py_functions s \<and> c_functions s' = c_functions s
         \<and> frame_stack s' = frame_stack s"
    and b: "begin_event env PyTrace_C_EXCEPTION frame arg s = Inr (s\<lparr>last_instruction := kCReturn\<rparr>)"
    by (simp_all add: begin_event_def profile_c_return_def)
  have c: "finish frame (s\<lparr>last_instruction := kException\<rparr>) = Inr (s\<lparr>last_instruction := kException\<rparr>)"
    and d: "finish frame (s\<lparr>last_instruction := kCException\<rparr>) = Inr (s\<lparr>last_instruction := kCException\<rparr>)"
    by (simp_all add: finish_def)
  have f: "finish frame (s\<lparr>last_instruction := kCReturn, last_instruction_end := t\<rparr>)
       = (case frame_stack s of
            [] \<Rightarrow> Inl empty_stack
          | fr # rest \<Rightarrow>
              Inr (s\<lparr>last_instruction := kCReturn, last_instruction_end := t,
                     frame_stack :=
                       fr\<lparr>frame_internal := frame_internal fr + (t - last_instruction_start s)\<rparr>
                       # rest\<rparr>))"
    by (simp add: finish_def finish_creturn_def elapsed_def FrameState_add_internal_def
        split: list.splits)
  from a b c d f show ?thesis by blast
qed

subsection \<open>The depth of the stack\<close>

lemma pop_frame_stack:
  assumes "pop_frame s = Inr s'"
  shows "frame_stack s \<noteq> [] \<and> length (frame_stack s') = length (frame_stack s) - 1
         \<and> last_instruction s' = last_instruction s"
  using assms
  by (auto simp: pop_frame_def Let_def on_current_line_def split: list.splits sum.splits prod.splits)

lemma finish_stack:
  assumes "finish frame s = Inr s1"
  shows "length (frame_stack s1) + pending_pop s = length (frame_stack s)
         \<and> last_instruction s1 = last_instruction s"
proof (cases "last_instruction s")
  case kReturn
  with assms obtain fr rest where st: "frame_stack s = fr # rest"
    and pf: "pop_frame (s\<lparr>frame_stack := FrameState_add_internal (elapsed s) fr # rest\<rparr>) = Inr s1"
    by (auto simp: finish_def finish_return_def split: list.splits)
  from pop_frame_stack [OF pf] st kReturn show ?thesis by (simp add: pending_pop_def)
qed (use assms in \<open>auto simp: finish_def finish_origin_def finish_line_def finish_call_def
        finish_ccall_def finish_creturn_def pending_pop_def on_current_line_def Let_def
        split: list.splits sum.splits prod.splits\<close>)

lemma begin_event_stack:
  assumes "begin_event env w frame arg s1 = Inr s2"
  shows "length (frame_stack s2) = length (frame_stack s1) + (if w = PyTrace_CALL then 1 else 0)
         \<and> (recorded_kind w \<longrightarrow> pending_pop s2 = (if w = PyTrace_RETURN then 1 else 0))"
  using assms
  by (cases w)
    (auto simp: begin_event_def profile_line_def profile_call_def profile_return_def
      profile_c_call_def profile_c_return_def add_c_function_def add_function_def emplace_frame_def
      Let_def pending_pop_def recorded_kind_def
      split: sum.splits list.splits prod.splits if_splits)

lemma dispatch_stack:
  assumes "dispatch env ev s = Inr s'"
  shows "depth s' + pending_pop s = depth s + (if ev_what ev = PyTrace_CALL then 1 else 0)
         \<and> (recorded_kind (ev_what ev)
              \<longrightarrow> pending_pop s' = (if ev_what ev = PyTrace_RETURN then 1 else 0))"
proof -
  from assms obtain s1 s2 where
    f: "finish (ev_frame ev) (s\<lparr>last_instruction_end := ev_entry ev\<rparr>) = Inr s1"
    and b: "begin_event env (ev_what ev) (ev_frame ev) (ev_arg ev) s1 = Inr s2"
    and s': "s' = s2\<lparr>last_instruction_start := ev_exit ev\<rparr>"
    by (auto simp: dispatch_def profile_def split: sum.splits)
  from finish_stack [OF f] begin_event_stack [OF b] show ?thesis
    by (simp add: s' depth_def pending_pop_def)
qed

lemma run_append:
  "run env (xs @ ys) s = (case run env xs s of Inl e \<Rightarrow> Inl e | Inr s1 \<Rightarrow> run env ys s1)"
  by (induction xs arbitrary: s) (auto split: sum.splits)

lemma run_stack:
  assumes "run env evs s = Inr s'" and "\<forall>ev\<in>set evs. recorded_kind (ev_what ev)"
  shows "depth s' + pending_pop s + count_what PyTrace_RETURN evs
           = depth s + count_what PyTrace_CALL evs + pending_pop s'"
  using assms
proof (induction evs arbitrary: s)
  case Nil
  then show ?case by (simp add: count_what_def)
next
  case (Cons ev evs)
  from Cons.prems(1) obtain s1 where d: "dispatch env ev s = Inr s1" and r: "run env evs s1 = Inr s'"
    by (auto split: sum.splits)
  from Cons.IH [OF r] Cons.prems(2)
  have ih: "depth s' + pending_pop s1 + count_what PyTrace_RETURN evs
           = depth s1 + count_what PyTrace_CALL evs + pending_pop s'" by simp
  from dispatch_stack [OF d] Cons.prems(2)
  have st: "depth s1 + pending_pop s = depth s + (if ev_what ev = PyTrace_CALL then 1 else 0)"
    and pp: "pending_pop s1 = (if ev_what ev = PyTrace_RETURN then 1 else 0)" by simp_all
  from ih st pp show ?case by (auto simp: count_what_def)
qed

lemma run_last_pending:
  assumes "run env evs s = Inr s'" and "\<forall>ev\<in>set evs. recorded_kind (ev_what ev)" and "evs \<noteq> []"
  shows "pending_pop s' = (if ev_what (last evs) = PyTrace_RETURN then 1 else 0)"
proof -
  from assms(3) obtain xs ev where evs: "evs = xs @ [ev]" by (metis rev_exhaust)
  with assms(1) obtain s1 where "dispatch env ev s1 = Inr s'"
    by (auto simp: run_append split: sum.splits)
  from dispatch_stack [OF this] assms(2) evs show ?thesis by simp
qed


lemma nested_from_prefix:
  "nested_from d (xs @ ys) \<Longrightarrow> count_what PyTrace_RETURN xs \<le> d + count_what PyTrace_CALL xs"
proof (induction xs arbitrary: d)
  case Nil
  then show ?case by (simp add: count_what_def)
next
  case (Cons ev xs)
  show ?case
  proof (cases "ev_what ev = PyTrace_CALL")
    case True
    with Cons.prems have "nested_from (Suc d) (xs @ ys)" by simp
    from Cons.IH [OF this] True show ?thesis by (simp add: count_what_def)
  next
    case False
    show ?thesis
    proof (cases "ev_what ev = PyTrace_RETURN")
      case True
      with Cons.prems have d: "0 < d" and "nested_from (d - 1) (xs @ ys)" by simp_all
      from Cons.IH [OF this(2)] True d show ?thesis by (simp add: count_what_def)
    next
      case notret: False
      with False Cons.prems have "nested_from d (xs @ ys)" by simp
      from Cons.IH [OF this] False notret show ?thesis by (simp add: count_what_def)
    qed
  qed
qed

lemma run_error_split:
  "run env evs s = Inl e \<Longrightarrow>
     \<exists>xs ev ys s1. evs = xs @ ev # ys \<and> run env xs s = Inr s1 \<and> dispatch env ev s1 = Inl e"
proof (induction evs arbitrary: s)
  case Nil
  then show ?case by simp
next
  case (Cons ev evs)
  show ?case
  proof (cases "dispatch env ev s")
    case (Inl e')
    with Cons.prems have "e' = e" by simp
    with Inl have "ev # evs = [] @ ev # evs \<and> run env [] s = Inr s \<and> dispatch env ev s = Inl e"
      by simp
    then show ?thesis by blast
  next
    case (Inr s1)
    with Cons.prems have "run env evs s1 = Inl e" by simp
    from Cons.IH [OF this] obtain xs ev' ys s2 where
      "evs = xs @ ev' # ys" "run env xs s1 = Inr s2" "dispatch env ev' s2 = Inl e" by blast
    with Inr have "ev # evs = (ev # xs) @ ev' # ys \<and> run env (ev # xs) s = Inr s2
                   \<and> dispatch env ev' s2 = Inl e" by simp
    then show ?thesis by blast
  qed
qed

lemma pop_frame_loop_error:
  "pop_frame_loop i ls fn = Inl e \<Longrightarrow> e = out_of_range"
  by (induction ls arbitrary: fn)
    (auto simp: Function_add_elapsed_def Function_add_elapsed_internal_def
      split: sum.splits if_splits)

lemma pop_frame_not_empty_stack:
  "frame_stack s \<noteq> [] \<Longrightarrow> pop_frame s \<noteq> Inl empty_stack"
  by (auto simp: pop_frame_def Let_def on_current_line_def current_line_def map_at_def
      dest: pop_frame_loop_error
      split: list.splits sum.splits prod.splits option.splits if_splits)

lemma dispatch_empty_stack:
  assumes "dispatch env ev s = Inl empty_stack"
  shows "frame_stack s = []
         \<and> (last_instruction s = kReturn \<or> last_instruction s = kCCall \<or> last_instruction s = kCReturn)"
proof -
  have b: "begin_event env (ev_what ev) (ev_frame ev) (ev_arg ev) s1 \<noteq> Inl empty_stack" for s1
    by (cases "ev_what ev")
      (auto simp: begin_event_def profile_call_def add_function_def emplace_frame_def get_lines_def
        Let_def split: sum.splits option.splits prod.splits if_splits)
  from assms b have f: "finish (ev_frame ev) (s\<lparr>last_instruction_end := ev_entry ev\<rparr>) = Inl empty_stack"
    by (auto simp: dispatch_def profile_def split: sum.splits)
  show ?thesis
  proof (cases "last_instruction s")
    case kReturn
    with f pop_frame_not_empty_stack show ?thesis
      by (auto simp: finish_def finish_return_def split: list.splits)
  qed (use f in \<open>auto simp: finish_def finish_origin_def finish_line_def finish_call_def
        finish_ccall_def finish_creturn_def on_current_line_def current_line_def map_at_def Let_def
        split: list.splits sum.splits prod.splits option.splits if_splits\<close>)
qed

lemma dispatch_interpreted_last:
  assumes "dispatch env ev s = Inr s'" and "interpreted_kind (ev_what ev)"
  shows "last_instruction s' = kCall \<or> last_instruction s' = kLine \<or> last_instruction s' = kReturn"
proof -
  from assms(1) obtain s1 s2 where
    b: "begin_event env (ev_what ev) (ev_frame ev) (ev_arg ev) s1 = Inr s2"
    and s': "s' = s2\<lparr>last_instruction_start := ev_exit ev\<rparr>"
    by (auto simp: dispatch_def profile_def split: sum.splits)
  from b assms(2) show ?thesis
    by (auto simp: s' interpreted_kind_def begin_event_def profile_line_def profile_call_def
        profile_return_def Let_def split: sum.splits list.splits)
qed

lemma run_interpreted_last:
  assumes "run env evs s = Inr s'" and "\<forall>ev\<in>set evs. interpreted_kind (ev_what ev)"
    and "last_instruction s = kOrigin"
  shows "last_instruction s' \<noteq> kCCall \<and> last_instruction s' \<noteq> kCReturn"
proof (cases evs rule: rev_cases)
  case Nil
  with assms show ?thesis by simp
next
  case (snoc xs ev)
  with assms(1) obtain s1 where "dispatch env ev s1 = Inr s'"
    by (auto simp: run_append split: sum.splits)
  from dispatch_interpreted_last [OF this] assms(2) snoc show ?thesis by auto
qed

text \<open>
  C7 as stated (the depth is back at 0 once a fully nested sequence has been processed)
  does not hold: the frame of a return is popped by the dispatch that follows it. After
  the properly nested sequence call, line, return the frame of the call is still there.
\<close>
theorem frame_stays_after_last_return:
  "well_nested single_call_events
   \<and> count_what PyTrace_CALL single_call_events = count_what PyTrace_RETURN single_call_events
   \<and> map_option length (the_stack (run demo_env single_call_events (start Module_init))) = Some 1"
  by (simp add: single_call_events_def well_nested_def count_what_def run_defs engine_defs
        the_stack_def get_lines_loop_eq)

text \<open>
  C7, amended. Take events that record a kind (calls, lines, returns, foreign calls,
  returns and exceptions), processed from an empty stack after \<^verbatim>\<open>start()\<close>. When the run
  does not throw, the depth is the number of calls minus the number of returns, plus one
  while the last event is a return: each call pushes one frame at its own dispatch, each
  return pops one frame at the dispatch that follows it. So after a fully nested sequence
  that ends in its last return the depth is 1, and it is 0 after one more event that is
  not a call. Popping an empty stack is an error of the model, and a properly nested run
  of calls, lines and returns never raises it.
\<close>
theorem stack_discipline:
  assumes empty: "frame_stack s = []" and origin: "last_instruction s = kOrigin"
    and kinds: "\<forall>ev\<in>set evs. recorded_kind (ev_what ev)"
  shows "(run env evs s = Inr s' \<longrightarrow>
            depth s' + count_what PyTrace_RETURN evs = count_what PyTrace_CALL evs + pending_pop s'
            \<and> pending_pop s' = (if evs \<noteq> [] \<and> ev_what (last evs) = PyTrace_RETURN then 1 else 0))
       \<and> (well_nested evs \<and> (\<forall>ev\<in>set evs. interpreted_kind (ev_what ev))
            \<longrightarrow> run env evs s \<noteq> Inl empty_stack)"
proof (intro conjI impI)
  assume r: "run env evs s = Inr s'"
  from run_stack [OF r kinds] empty origin
  show "depth s' + count_what PyTrace_RETURN evs = count_what PyTrace_CALL evs + pending_pop s'"
    by (simp add: depth_def pending_pop_def)
  show "pending_pop s' = (if evs \<noteq> [] \<and> ev_what (last evs) = PyTrace_RETURN then 1 else 0)"
  proof (cases "evs = []")
    case True
    with r origin show ?thesis by (simp add: pending_pop_def)
  next
    case False
    from run_last_pending [OF r kinds False] False show ?thesis by simp
  qed
next
  assume wn: "well_nested evs \<and> (\<forall>ev\<in>set evs. interpreted_kind (ev_what ev))"
  show "run env evs s \<noteq> Inl empty_stack"
  proof
    assume "run env evs s = Inl empty_stack"
    from run_error_split [OF this] obtain xs ev ys s1 where
      evs: "evs = xs @ ev # ys" and r: "run env xs s = Inr s1"
      and d: "dispatch env ev s1 = Inl empty_stack" by blast
    from kinds evs have kx: "\<forall>ev\<in>set xs. recorded_kind (ev_what ev)" by simp
    from wn evs have ix: "\<forall>ev\<in>set xs. interpreted_kind (ev_what ev)" by simp
    from dispatch_empty_stack [OF d] run_interpreted_last [OF r ix origin]
    have e1: "frame_stack s1 = []" and p1: "last_instruction s1 = kReturn" by auto
    from run_stack [OF r kx] empty origin e1 p1
    have "count_what PyTrace_RETURN xs = count_what PyTrace_CALL xs + 1"
      by (simp add: depth_def pending_pop_def)
    moreover from wn evs have "nested_from 0 (xs @ ev # ys)" by (simp add: well_nested_def)
    from nested_from_prefix [OF this]
    have "count_what PyTrace_RETURN xs \<le> count_what PyTrace_CALL xs" by simp
    ultimately show False by simp
  qed
qed

theorem stack_discipline_witness:
  "frame_stack (start Module_init) = [] \<and> last_instruction (start Module_init) = kOrigin
   \<and> list_all recorded_kind (map ev_what completed_call_events)
   \<and> list_all interpreted_kind (map ev_what completed_call_events)
   \<and> well_nested completed_call_events
   \<and> run demo_env completed_call_events (start Module_init)
       = Inr (the_state (run demo_env completed_call_events (start Module_init)))
   \<and> count_what PyTrace_CALL completed_call_events = 1
   \<and> count_what PyTrace_RETURN completed_call_events = 1
   \<and> depth (the_state (run demo_env completed_call_events (start Module_init))) = 0
   \<and> run demo_env completed_call_events (start Module_init) \<noteq> Inl empty_stack"
proof -
  let ?s' = "the_state (run demo_env completed_call_events (start Module_init))"
  have h1: "frame_stack (start Module_init) = []"
    and h2: "last_instruction (start Module_init) = kOrigin"
    by (simp_all add: start_def Module_init_def)
  have h3: "\<forall>ev\<in>set completed_call_events. recorded_kind (ev_what ev)"
    and h4: "\<forall>ev\<in>set completed_call_events. interpreted_kind (ev_what ev)"
    and h5: "well_nested completed_call_events"
    and c1: "count_what PyTrace_CALL completed_call_events = 1"
    and c2: "count_what PyTrace_RETURN completed_call_events = 1"
    by (simp_all add: completed_call_events_def single_call_events_def py_event_def
        recorded_kind_def interpreted_kind_def well_nested_def count_what_def)
  have h6: "run demo_env completed_call_events (start Module_init) = Inr ?s'"
    by (simp add: completed_call_events_def single_call_events_def run_defs engine_defs
        the_state_def get_lines_loop_eq)
  have l: "ev_what (last completed_call_events) = PyTrace_LINE"
    by (simp add: completed_call_events_def py_event_def)
  from stack_discipline [OF h1 h2 h3, of demo_env ?s'] h4 h5 h6 c1 c2 l
  have "depth ?s' = 0" and "run demo_env completed_call_events (start Module_init) \<noteq> Inl empty_stack"
    by simp_all
  moreover have "list_all recorded_kind (map ev_what completed_call_events)"
    and "list_all interpreted_kind (map ev_what completed_call_events)"
    using h3 h4 by (simp_all add: list_all_iff)
  ultimately show ?thesis using h1 h2 h5 h6 c1 c2 by blast
qed

subsection \<open>The sizes of the accumulator arrays\<close>

lemma list_all_map_store:
  "list_all P m \<Longrightarrow> P (k, v) \<Longrightarrow> list_all P (map_store k v m)"
  unfolding map_store_def by (induction m) auto

lemma list_all_map_emplace:
  "list_all P m \<Longrightarrow> P (k, v) \<Longrightarrow> list_all P (map_emplace k v m)"
  by (auto simp: map_emplace_def split: option.splits)

lemma list_all_map_of:
  "list_all P m \<Longrightarrow> map_of m k = Some v \<Longrightarrow> P (k, v)"
  by (auto simp: list_all_iff dest: map_of_SomeD)

lemma pop_frame_loop_sizes:
  "pop_frame_loop i ls fn = Inr fn' \<Longrightarrow>
     lines fn' = lines fn \<and> length (line_time fn') = length (line_time fn)
     \<and> length (line_time_internal fn') = length (line_time_internal fn)"
  by (induction ls arbitrary: fn)
    (auto simp: Function_add_elapsed_def Function_add_elapsed_internal_def
      split: sum.splits if_splits)

lemma record_sized_overhead:
  "record_sized env (c, fn) \<Longrightarrow> record_sized env (c, fn\<lparr>internal_time := x\<rparr>)"
  by (auto simp: record_sized_def split: option.splits)

lemma frame_sized_on_current_line:
  "frame_sized env fr \<Longrightarrow> on_current_line upd fr = Inr fr' \<Longrightarrow> frame_sized env fr'"
  by (auto simp: frame_sized_def on_current_line_def split: sum.splits option.splits)

lemma frame_sized_add_internal:
  "frame_sized env fr \<Longrightarrow> frame_sized env (FrameState_add_internal d fr)"
  by (auto simp: frame_sized_def FrameState_add_internal_def split: option.splits)

lemma frame_sized_set_current_line:
  "frame_sized env fr \<Longrightarrow> frame_sized env (set_current_line l fr)"
  by (auto simp: frame_sized_def set_current_line_def split: option.splits)

lemma sized_pop_frame:
  assumes "sized env s" and "pop_frame s = Inr s'"
  shows "sized env s'"
proof -
  from assms(2) obtain frame rest fn fn1 printed fn2 where
    st: "frame_stack s = frame # rest"
    and fn: "map_of (py_functions s) (key frame) = Some fn"
    and b: "BaseFunction_add_elapsed_internal (frame_internal frame) fn = (fn1, printed)"
    and l: "pop_frame_loop 0 (frame_lines frame) fn1 = Inr fn2"
    by (auto simp: pop_frame_def map_at_def split: list.splits sum.splits prod.splits option.splits)
  from assms(1) have recs: "list_all (record_sized env) (py_functions s)"
    and frs: "list_all (frame_sized env) (frame_stack s)" by (simp_all add: sized_def)
  from b have fn1: "fn1 = fn\<lparr>internal_time := internal_time fn + frame_internal frame\<rparr>"
    by (simp add: BaseFunction_add_elapsed_internal_def Let_def)
  from list_all_map_of [OF recs fn] have "record_sized env (key frame, fn1)"
    unfolding fn1 by (rule record_sized_overhead)
  with pop_frame_loop_sizes [OF l] have "record_sized env (key frame, fn2)"
    by (auto simp: record_sized_def split: option.splits)
  with recs have recs': "list_all (record_sized env) (map_store (key frame) fn2 (py_functions s))"
    by (intro list_all_map_store)
  from frs st have rest: "list_all (frame_sized env) rest" by simp
  show ?thesis
  proof (cases rest)
    case Nil
    with assms(2) st fn b l have "s' = s\<lparr>py_functions := map_store (key frame) fn2 (py_functions s),
                                       cout := cout s @ printed, frame_stack := []\<rparr>"
      by (simp add: pop_frame_def map_at_def)
    with recs' show ?thesis by (simp add: sized_def)
  next
    case (Cons caller below)
    with assms(2) st fn b l obtain caller' where
      c: "on_current_line (LineState_add_external (total_time frame)) caller = Inr caller'"
      and s': "s' = s\<lparr>py_functions := map_store (key frame) fn2 (py_functions s),
                       cout := cout s @ printed, frame_stack := caller' # below\<rparr>"
      by (auto simp: pop_frame_def map_at_def split: sum.splits)
    from rest Cons frame_sized_on_current_line [OF _ c]
    have "list_all (frame_sized env) (caller' # below)" by simp
    with recs' show ?thesis by (simp add: sized_def s')
  qed
qed

lemma sized_finish:
  assumes "sized env s" and "finish frame s = Inr s1"
  shows "sized env s1"
proof (cases "last_instruction s")
  case kLine
  with assms show ?thesis
    by (auto simp: finish_def finish_line_def sized_def split: list.splits sum.splits
        dest: frame_sized_on_current_line)
next
  case kCall
  with assms(2) obtain fn where fn: "map_of (py_functions s) (f_code frame) = Some fn"
    and s1: "s1 = s\<lparr>py_functions := map_store (f_code frame)
                        (fn\<lparr>internal_time := internal_time fn + elapsed s\<rparr>) (py_functions s),
                     cout := cout s @ [Text ''Internal: '', Seconds (internal_time fn + elapsed s), Endl]\<rparr>"
    by (auto simp: finish_def finish_call_def map_at_def BaseFunction_add_elapsed_internal_def Let_def
        split: option.splits)
  from assms(1) have recs: "list_all (record_sized env) (py_functions s)" by (simp add: sized_def)
  from list_all_map_of [OF recs fn]
  have "record_sized env (f_code frame, fn\<lparr>internal_time := internal_time fn + elapsed s\<rparr>)"
    by (rule record_sized_overhead)
  with recs assms(1) show ?thesis by (simp add: s1 sized_def list_all_map_store)
next
  case kReturn
  with assms(2) obtain fr rest where st: "frame_stack s = fr # rest"
    and pf: "pop_frame (s\<lparr>frame_stack := FrameState_add_internal (elapsed s) fr # rest\<rparr>) = Inr s1"
    by (auto simp: finish_def finish_return_def split: list.splits)
  from assms(1) st have "sized env (s\<lparr>frame_stack := FrameState_add_internal (elapsed s) fr # rest\<rparr>)"
    by (simp add: sized_def frame_sized_add_internal)
  from sized_pop_frame [OF this pf] show ?thesis .
next
  case kCCall
  with assms show ?thesis
    by (auto simp: finish_def finish_ccall_def sized_def map_at_def
        BaseFunction_add_elapsed_internal_def Let_def
        split: list.splits sum.splits option.splits dest: frame_sized_on_current_line)
next
  case kCReturn
  with assms show ?thesis
    by (auto simp: finish_def finish_creturn_def sized_def frame_sized_add_internal
        split: list.splits)
qed (use assms in \<open>auto simp: finish_def finish_origin_def\<close>)

lemma sized_begin_event:
  assumes "sized env s1" and "begin_event env w frame arg s1 = Inr s2"
  shows "sized env s2"
proof (cases w)
  case PyTrace_CALL
  with assms(2) obtain sa sb where a: "add_function env frame s1 = Inr sa"
    and e: "emplace_frame env frame sa = Inr sb"
    and s2: "s2 = sb\<lparr>last_instruction := kCall\<rparr>"
    by (auto simp: begin_event_def profile_call_def split: sum.splits)
  from e obtain src line_start where
    src: "getsourcelines env (f_code frame) = Some (src, line_start)"
    by (auto simp: emplace_frame_def get_lines_def split: option.splits)
  have "record_sized env (f_code frame,
          Function_init (PyFrame_GetName env frame) (get_lines_loop 1 src []) (f_code frame))"
    by (simp add: record_sized_def src Function_init_def get_lines_loop_eq)
  with assms(1) a src have sa: "sized env sa"
    by (auto simp: add_function_def sized_def get_lines_def Let_def list_all_map_emplace
        split: if_splits)
  have "frame_sized env (FrameState_init (f_code frame) (length (get_lines_loop 1 src []))
                           (PyLong_AsUnsignedLongLong line_start))"
    by (simp add: frame_sized_def src FrameState_init_def get_lines_loop_eq)
  with sa e src have "sized env sb"
    by (auto simp: sized_def emplace_frame_def get_lines_def)
  then show ?thesis by (simp add: s2 sized_def)
next
  case PyTrace_LINE
  with assms show ?thesis
    by (auto simp: begin_event_def profile_line_def sized_def Let_def frame_sized_set_current_line
        split: list.splits)
qed (use assms in \<open>auto simp: begin_event_def profile_return_def profile_c_call_def
        profile_c_return_def add_c_function_def sized_def Let_def\<close>)

lemma sized_dispatch:
  assumes "sized env s" and "dispatch env ev s = Inr s'"
  shows "sized env s'"
proof -
  from assms(2) obtain s1 s2 where
    f: "finish (ev_frame ev) (s\<lparr>last_instruction_end := ev_entry ev\<rparr>) = Inr s1"
    and b: "begin_event env (ev_what ev) (ev_frame ev) (ev_arg ev) s1 = Inr s2"
    and s': "s' = s2\<lparr>last_instruction_start := ev_exit ev\<rparr>"
    by (auto simp: dispatch_def profile_def split: sum.splits)
  from assms(1) have "sized env (s\<lparr>last_instruction_end := ev_entry ev\<rparr>)" by (simp add: sized_def)
  from sized_begin_event [OF sized_finish [OF this f] b] show ?thesis by (simp add: s' sized_def)
qed

lemma sized_run: "sized env s \<Longrightarrow> run env evs s = Inr s' \<Longrightarrow> sized env s'"
  by (induction evs arbitrary: s) (auto split: sum.splits dest: sized_dispatch)


lemma current_line_first_source_line:
  assumes "current_line_no fr = starting_line fr" and "length (frame_lines fr) < 2 ^ 64"
  shows "current_line fr = Inl out_of_range"
proof -
  have "unat (current_line_no fr - starting_line fr - 1) = 2 ^ 64 - 1"
    using assms(1) by (simp add: unsigned_minus_1_eq_mask mask_eq_exp_minus_1)
  with assms(2) show ?thesis by (simp add: current_line_def Let_def)
qed

text \<open>
  C10 (the first source line is dropped, and all per-line arrays of a callable have the
  same, shortened length). In every state reached from a fresh engine, whatever the events
  were: each record holds the source lines without the first one, and its two
  accumulator arrays have one entry per line kept, so entry \<open>k\<close> belongs to source line
  \<open>k + 1\<close>; each invocation on the stack has as many line states as the record of its
  callable, since \<^verbatim>\<open>getsourcelines\<close> is a function of the code object; a line is
  accumulated at the index \<open>current_line_no - starting_line - 1\<close>, computed on \<^verbatim>\<open>size_t\<close>,
  which is inside the shortened array whenever the lookup succeeds; and for the first
  source line itself the index wraps around to \<open>2^64 - 1\<close> and the lookup throws, so that
  line is never given any time.
\<close>
theorem line_arrays_sized:
  assumes fresh: "py_functions s0 = []" "frame_stack s0 = []"
    and run: "run env evs s0 = Inr s"
  shows "(\<forall>p\<in>set (py_functions s).
            \<exists>src line_start. getsourcelines env (fst p) = Some (src, line_start)
              \<and> lines (snd p) = drop 1 src
              \<and> length (line_time (snd p)) = length src - 1
              \<and> length (line_time_internal (snd p)) = length src - 1
              \<and> (\<forall>k<length (lines (snd p)). lines (snd p) ! k = src ! Suc k))
       \<and> (\<forall>fr\<in>set (frame_stack s).
            \<exists>src line_start. getsourcelines env (function_key fr) = Some (src, line_start)
              \<and> length (frame_lines fr) = length src - 1
              \<and> starting_line fr = PyLong_AsUnsignedLongLong line_start
              \<and> (\<forall>k. current_line fr = Inr k \<longrightarrow>
                    k = unat (current_line_no fr - starting_line fr - 1) \<and> k < length src - 1)
              \<and> (length src \<le> 2 ^ 64 \<and> current_line_no fr = starting_line fr
                    \<longrightarrow> current_line fr = Inl out_of_range))"
proof -
  from fresh have "sized env s0" by (simp add: sized_def)
  from sized_run [OF this run] have recs: "list_all (record_sized env) (py_functions s)"
    and frs: "list_all (frame_sized env) (frame_stack s)" by (simp_all add: sized_def)
  have 1: "\<exists>src line_start. getsourcelines env (fst p) = Some (src, line_start)
              \<and> lines (snd p) = drop 1 src
              \<and> length (line_time (snd p)) = length src - 1
              \<and> length (line_time_internal (snd p)) = length src - 1
              \<and> (\<forall>k<length (lines (snd p)). lines (snd p) ! k = src ! Suc k)"
    if "p \<in> set (py_functions s)" for p
  proof -
    from recs that have "record_sized env p" by (simp add: list_all_iff)
    then show ?thesis by (auto simp: record_sized_def split: option.splits)
  qed
  have 2: "\<exists>src line_start. getsourcelines env (function_key fr) = Some (src, line_start)
              \<and> length (frame_lines fr) = length src - 1
              \<and> starting_line fr = PyLong_AsUnsignedLongLong line_start
              \<and> (\<forall>k. current_line fr = Inr k \<longrightarrow>
                    k = unat (current_line_no fr - starting_line fr - 1) \<and> k < length src - 1)
              \<and> (length src \<le> 2 ^ 64 \<and> current_line_no fr = starting_line fr
                    \<longrightarrow> current_line fr = Inl out_of_range)"
    if "fr \<in> set (frame_stack s)" for fr
  proof -
    from frs that have "frame_sized env fr" by (simp add: list_all_iff)
    then obtain src line_start where
      src: "getsourcelines env (function_key fr) = Some (src, line_start)"
      and len: "length (frame_lines fr) = length src - 1"
      and st: "starting_line fr = PyLong_AsUnsignedLongLong line_start"
      by (auto simp: frame_sized_def split: option.splits)
    have a: "k = unat (current_line_no fr - starting_line fr - 1) \<and> k < length src - 1"
      if "current_line fr = Inr k" for k
      using that len by (auto simp: current_line_def Let_def split: if_splits)
    have b: "current_line fr = Inl out_of_range"
      if "length src \<le> 2 ^ 64 \<and> current_line_no fr = starting_line fr"
    proof (rule current_line_first_source_line)
      from that show "current_line_no fr = starting_line fr" by simp
      show "length (frame_lines fr) < 2 ^ 64"
      proof (cases "src = []")
        case True
        with len show ?thesis by simp
      next
        case False
        then have "length src - 1 < length src" by (cases src) simp_all
        with that len show ?thesis by simp
      qed
    qed
    from src len st a b show ?thesis by blast
  qed
  from 1 2 show ?thesis by blast
qed


theorem line_arrays_sized_witness:
  "py_functions (start Module_init) = [] \<and> frame_stack (start Module_init) = []
   \<and> run demo_env two_line_events (start Module_init)
       = Inr (the_state (run demo_env two_line_events (start Module_init)))
   \<and> map fst (py_functions (the_state (run demo_env two_line_events (start Module_init)))) = [1, 2]
   \<and> map function_key (frame_stack (the_state (run demo_env two_line_events (start Module_init))))
       = [2, 1]
   \<and> map length (map line_time (map snd
         (py_functions (the_state (run demo_env two_line_events (start Module_init)))))) = [3, 2]
   \<and> map length (map frame_lines
         (frame_stack (the_state (run demo_env two_line_events (start Module_init))))) = [2, 3]
   \<and> map current_line (frame_stack (the_state (run demo_env two_line_events (start Module_init))))
       = [Inr 1, Inr 1]"
proof -
  let ?s = "the_state (run demo_env two_line_events (start Module_init))"
  have h1: "py_functions (start Module_init) = []" and h2: "frame_stack (start Module_init) = []"
    by (simp_all add: start_def Module_init_def)
  have h3: "run demo_env two_line_events (start Module_init) = Inr ?s"
    by (simp add: two_line_events_def run_defs engine_defs the_state_def get_lines_loop_eq)
  have keys: "map fst (py_functions ?s) = [1, 2]" "map function_key (frame_stack ?s) = [2, 1]"
    and cur: "map current_line (frame_stack ?s) = [Inr 1, Inr 1]"
    by (simp_all add: two_line_events_def run_defs engine_defs the_state_def get_lines_loop_eq)
  from keys obtain p1 p2 fr1 fr2 where ps: "py_functions ?s = [p1, p2]" "fst p1 = 1" "fst p2 = 2"
    and frs: "frame_stack ?s = [fr1, fr2]" "function_key fr1 = 2" "function_key fr2 = 1"
    by (auto simp: map_eq_Cons_conv)
  note sized = line_arrays_sized [OF h1 h2 h3]
  from sized ps have "length (line_time (snd p1)) = 3" "length (line_time (snd p2)) = 2"
    by (auto simp: demo_env_def)
  moreover from sized frs have "length (frame_lines fr1) = 2" "length (frame_lines fr2) = 3"
    by (auto simp: demo_env_def)
  ultimately have "map length (map line_time (map snd (py_functions ?s))) = [3, 2]"
    and "map length (map frame_lines (frame_stack ?s)) = [2, 3]"
    by (simp_all add: ps frs)
  with h1 h2 h3 keys cur show ?thesis by blast
qed

subsection \<open>A nested call\<close>

lemma profile_line_records:
  assumes "profile env PyTrace_LINE frame arg t t' s = Inr s1"
  shows "last_instruction s1 = kLine \<and> last_instruction_start s1 = t'"
  using assms
  by (auto simp: profile_def begin_event_def profile_line_def Let_def split: sum.splits list.splits)

lemma profile_call_after_line:
  assumes "last_instruction s = kLine" and "frame_stack s = caller # rest"
    and "current_line caller = Inr i"
    and "getsourcelines env (f_code frame) = Some (src, line_start)"
  shows "profile env PyTrace_CALL frame arg t t' s =
     Inr (s\<lparr>last_instruction_end := t,
            frame_stack :=
              FrameState_init (f_code frame) (length (drop 1 src)) (PyLong_AsUnsignedLongLong line_start)
              # caller\<lparr>frame_lines := (frame_lines caller)
                         [i := LineState_add_internal (t - last_instruction_start s)
                                 (frame_lines caller ! i)]\<rparr>
              # rest,
            py_functions :=
              map_emplace (f_code frame)
                (Function_init (co_name env (f_code frame)) (drop 1 src) (f_code frame))
                (py_functions s),
            last_instruction := kCall, last_instruction_start := t'\<rparr>)"
  using assms
  by (auto simp: profile_def finish_def finish_line_def begin_event_def elapsed_def
        on_current_line_def profile_call_def add_function_def emplace_frame_def get_lines_def
        get_lines_loop_eq map_count_def map_emplace_def PyFrame_GetName_def Let_def
        split: option.splits)

lemma profile_line_after_call:
  assumes "last_instruction s = kCall" and "frame_stack s = fr # rest"
    and "map_of (py_functions s) (f_code frame) = Some fn"
  shows "profile env PyTrace_LINE frame arg t t' s =
     Inr (s\<lparr>last_instruction_end := t,
            py_functions := map_store (f_code frame)
                              (fn\<lparr>internal_time := internal_time fn + (t - last_instruction_start s)\<rparr>)
                              (py_functions s),
            cout := cout s @ [Text ''Internal: '',
                              Seconds (internal_time fn + (t - last_instruction_start s)), Endl],
            frame_stack := set_current_line (word_of_int (f_lineno frame)) fr # rest,
            last_instruction := kLine, last_instruction_start := t'\<rparr>)"
  using assms
  by (simp add: profile_def finish_def finish_call_def begin_event_def elapsed_def map_at_def
        BaseFunction_add_elapsed_internal_def profile_line_def PyFrame_GetLineNumber_def)

lemma profile_return_after_line:
  assumes "last_instruction s = kLine" and "frame_stack s = fr # rest"
    and "current_line fr = Inr j"
  shows "profile env PyTrace_RETURN frame arg t t' s =
     Inr (s\<lparr>last_instruction_end := t,
            frame_stack :=
              fr\<lparr>frame_lines := (frame_lines fr)
                     [j := LineState_add_internal (t - last_instruction_start s) (frame_lines fr ! j)]\<rparr>
              # rest,
            last_instruction := kReturn, last_instruction_start := t'\<rparr>)"
  using assms
  by (simp add: profile_def finish_def finish_line_def begin_event_def elapsed_def
        on_current_line_def profile_return_def)

lemma profile_line_after_return:
  assumes "last_instruction s = kReturn" and "frame_stack s = fr # caller # rest"
    and "map_of (py_functions s) (function_key fr) = Some fn"
    and "0 < length (line_time fn)" and "0 < length (line_time_internal fn)"
    and "current_line caller = Inr i"
  shows "\<exists>fn'. profile env PyTrace_LINE frame arg t t' s =
     Inr (s\<lparr>last_instruction_end := t,
            py_functions := map_store (function_key fr) fn' (py_functions s),
            cout := cout s @ [Text ''Internal: '',
                     Seconds (internal_time fn + (frame_internal fr + (t - last_instruction_start s))),
                     Endl],
            frame_stack :=
              set_current_line (word_of_int (f_lineno frame))
                (caller\<lparr>frame_lines := (frame_lines caller)
                          [i := LineState_add_external (total_time fr) (frame_lines caller ! i)]\<rparr>)
              # rest,
            last_instruction := kLine, last_instruction_start := t'\<rparr>)
      \<and> internal_time fn' = internal_time fn + (frame_internal fr + (t - last_instruction_start s))"
proof -
  let ?fn1 = "fn\<lparr>internal_time := internal_time fn + (frame_internal fr + (t - last_instruction_start s))\<rparr>"
  from assms(4,5) have "0 < length (line_time ?fn1)" "0 < length (line_time_internal ?fn1)"
    by simp_all
  from pop_frame_loop_valid [OF this, of "frame_lines fr"] obtain fn' where
    l: "pop_frame_loop 0 (frame_lines fr) ?fn1 = Inr fn'"
    and i: "internal_time fn' = internal_time ?fn1" by simp
  from assms l have "profile env PyTrace_LINE frame arg t t' s =
     Inr (s\<lparr>last_instruction_end := t,
            py_functions := map_store (function_key fr) fn' (py_functions s),
            cout := cout s @ [Text ''Internal: '',
                     Seconds (internal_time fn + (frame_internal fr + (t - last_instruction_start s))),
                     Endl],
            frame_stack :=
              set_current_line (word_of_int (f_lineno frame))
                (caller\<lparr>frame_lines := (frame_lines caller)
                          [i := LineState_add_external (total_time fr) (frame_lines caller ! i)]\<rparr>)
              # rest,
            last_instruction := kLine, last_instruction_start := t'\<rparr>)"
    by (simp add: profile_def finish_def finish_return_def begin_event_def elapsed_def
        pop_frame_def key_def map_at_def FrameState_add_internal_def total_time_def
        BaseFunction_add_elapsed_internal_def on_current_line_def profile_line_def
        PyFrame_GetLineNumber_def add.commute)
  with i show ?thesis by auto
qed


lemma total_time_one_line:
  "j < n \<Longrightarrow>
     total_time_loop ((replicate n \<lparr>internal = 0, external = 0\<rparr>)[j := \<lparr>internal = d, external = 0\<rparr>]) r
       = r + d"
proof (induction n arbitrary: j r)
  case 0
  then show ?case by simp
next
  case (Suc n)
  show ?case
  proof (cases j)
    case 0
    have "total_time_loop (replicate n \<lparr>internal = 0, external = 0\<rparr>) r' = r'" for r'
      by (induction n arbitrary: r') simp_all
    with 0 show ?thesis by simp
  next
    case (Suc j')
    with Suc.prems have "j' < n" by simp
    from Suc.IH [OF this] Suc show ?thesis by simp
  qed
qed

text \<open>
  C2 as stated (when the return is processed, the 7 ms of the callee fold into its record
  and the current line of the caller gains 7 ms of external time) does not hold. After the
  four events of the scenario the invocation of the callee is still on the stack and the
  line of the caller has no external time; the next dispatch pops the invocation and the
  line of the caller gains 2 ms, the time of the callee's lines, without the 5 ms of
  overhead.
\<close>
theorem return_dispatch_folds_nothing:
  "map_option (map frame_lines) (the_stack (run demo_env nested_call_events (start Module_init)))
     = Some [[\<lparr>internal = 0, external = 0\<rparr>, \<lparr>internal = 2000000, external = 0\<rparr>],
             [\<lparr>internal = 0, external = 0\<rparr>, \<lparr>internal = 10000000, external = 0\<rparr>,
              \<lparr>internal = 0, external = 0\<rparr>]]
   \<and> map_option frame_lines
         (top_frame (run demo_env (nested_call_events @ [py_event PyTrace_LINE 1 13 19000000])
                       (start Module_init)))
       = Some [\<lparr>internal = 0, external = 0\<rparr>, \<lparr>internal = 10000000, external = 2000000\<rparr>,
               \<lparr>internal = 0, external = 0\<rparr>]"
  by (simp add: nested_call_events_def run_defs engine_defs the_stack_def top_frame_def
        get_lines_loop_eq)

text \<open>
  C2, amended. Let a line event be dispatched and leave on top of the stack an invocation
  \<open>caller\<close> whose current line has index \<open>i\<close>, in a state where the arrays have their
  sizes. Then a call of \<open>c\<close>, a line event of \<open>c\<close> for a line with index \<open>j\<close>, a return and
  one more line event are dispatched without error, and
  \<^item> the interval before the call is added to the internal time of line \<open>i\<close> of the caller;
  \<^item> the interval between the call and the callee's line event is added to the overhead
    of the record of \<open>c\<close>, directly, not to the invocation;
  \<^item> the interval before the return is added to the internal time of line \<open>j\<close> of the
    invocation of \<open>c\<close>, whose total time is then that interval;
  \<^item> the dispatch of the return changes nothing else: the invocation stays on the stack and
    the external time of the caller's line is as before;
  \<^item> the dispatch after the return pops the invocation, adds the interval since the
    return to the overhead of the record of \<open>c\<close>, and adds the total time of the
    invocation's lines (the 2 ms of the scenario) to the external time of line \<open>i\<close> of the
    caller.
  Which entries of the record's line arrays receive the times of the lines is not part of
  this statement.
\<close>
theorem nested_call_attribution:
  assumes line1: "profile env PyTrace_LINE frame_p arg_p t_p t_p' s = Inr s1"
    and sz: "sized env s1"
    and stack: "frame_stack s1 = caller # rest"
    and cur: "current_line caller = Inr i"
    and src: "getsourcelines env c = Some (src, line_start)"
    and fc: "f_code frame_c = c" "f_code frame_l = c"
    and j: "unat (word_of_int (f_lineno frame_l) - PyLong_AsUnsignedLongLong line_start - 1) = j"
    and jlt: "j < length (drop 1 src)"
  shows "\<exists>s2 s3 s4 s5 callee caller4 caller5.
      profile env PyTrace_CALL frame_c arg_c t_c t_c' s1 = Inr s2
    \<and> profile env PyTrace_LINE frame_l arg_l t_l t_l' s2 = Inr s3
    \<and> profile env PyTrace_RETURN frame_r arg_r t_r t_r' s3 = Inr s4
    \<and> profile env PyTrace_LINE frame_n arg_n t_n t_n' s4 = Inr s5
    \<and> frame_stack s4 = callee # caller4 # rest
    \<and> function_key callee = c
    \<and> internal (frame_lines caller4 ! i) = internal (frame_lines caller ! i) + (t_c - t_p')
    \<and> external (frame_lines caller4 ! i) = external (frame_lines caller ! i)
    \<and> py_overhead s4 c = py_overhead s1 c + (t_l - t_c')
    \<and> internal (frame_lines callee ! j) = t_r - t_l'
    \<and> total_time callee = t_r - t_l'
    \<and> frame_stack s5 = caller5 # rest
    \<and> internal (frame_lines caller5 ! i) = internal (frame_lines caller ! i) + (t_c - t_p')
    \<and> external (frame_lines caller5 ! i) = external (frame_lines caller ! i) + (t_r - t_l')
    \<and> py_overhead s5 c = py_overhead s1 c + (t_l - t_c') + (t_n - t_r')"
proof -
  from profile_line_records [OF line1]
  have li1: "last_instruction s1 = kLine" and ls1: "last_instruction_start s1 = t_p'" by simp_all
  from cur have ilt: "i < length (frame_lines caller)"
    by (auto simp: current_line_def Let_def split: if_splits)
  let ?n = "length (drop 1 src)"
  let ?start = "PyLong_AsUnsignedLongLong line_start"
  let ?caller4 = "caller\<lparr>frame_lines := (frame_lines caller)
                     [i := LineState_add_internal (t_c - t_p') (frame_lines caller ! i)]\<rparr>"
  let ?fn = "case map_of (py_functions s1) c of
               None \<Rightarrow> Function_init (co_name env c) (drop 1 src) c | Some fn \<Rightarrow> fn"
  \<comment> \<open>the call\<close>
  from profile_call_after_line [OF li1 stack cur, of env frame_c src line_start arg_c t_c t_c']
    src fc ls1
  obtain s2 where 2: "profile env PyTrace_CALL frame_c arg_c t_c t_c' s1 = Inr s2"
    and li2: "last_instruction s2 = kCall" and ls2: "last_instruction_start s2 = t_c'"
    and st2: "frame_stack s2 = FrameState_init c ?n ?start # ?caller4 # rest"
    and pf2: "py_functions s2 =
                map_emplace c (Function_init (co_name env c) (drop 1 src) c) (py_functions s1)"
    by simp
  have fn2: "map_of (py_functions s2) (f_code frame_l) = Some ?fn"
    by (simp add: pf2 fc map_of_map_emplace split: option.splits)
  have ov: "internal_time ?fn = py_overhead s1 c"
    by (simp add: py_overhead_def overhead_def Function_init_def split: option.splits)
  have len: "length (line_time ?fn) = ?n \<and> length (line_time_internal ?fn) = ?n"
  proof (cases "map_of (py_functions s1) c")
    case None
    then show ?thesis by (simp add: Function_init_def)
  next
    case (Some fn)
    from sz have "list_all (record_sized env) (py_functions s1)" by (simp add: sized_def)
    from list_all_map_of [OF this Some] src Some show ?thesis by (simp add: record_sized_def)
  qed
  \<comment> \<open>the first line of the callee\<close>
  let ?fn3 = "?fn\<lparr>internal_time := internal_time ?fn + (t_l - t_c')\<rparr>"
  let ?callee3 = "set_current_line (word_of_int (f_lineno frame_l)) (FrameState_init c ?n ?start)"
  from profile_line_after_call [OF li2 st2 fn2, of env arg_l t_l t_l'] ls2 fc
  obtain s3 where 3: "profile env PyTrace_LINE frame_l arg_l t_l t_l' s2 = Inr s3"
    and li3: "last_instruction s3 = kLine" and ls3: "last_instruction_start s3 = t_l'"
    and st3: "frame_stack s3 = ?callee3 # ?caller4 # rest"
    and pf3: "py_functions s3 = map_store c ?fn3 (py_functions s2)"
    by simp
  have cur3: "current_line ?callee3 = Inr j"
    using j jlt by (simp add: current_line_def set_current_line_def FrameState_init_def)
  \<comment> \<open>the return\<close>
  let ?callee4 = "?callee3\<lparr>frame_lines := (frame_lines ?callee3)
                     [j := LineState_add_internal (t_r - t_l') (frame_lines ?callee3 ! j)]\<rparr>"
  from profile_return_after_line [OF li3 st3 cur3, of env frame_r arg_r t_r t_r'] ls3
  obtain s4 where 4: "profile env PyTrace_RETURN frame_r arg_r t_r t_r' s3 = Inr s4"
    and li4: "last_instruction s4 = kReturn" and ls4: "last_instruction_start s4 = t_r'"
    and st4: "frame_stack s4 = ?callee4 # ?caller4 # rest"
    and pf4: "py_functions s4 = py_functions s3"
    by simp
  have key4: "function_key ?callee4 = c"
    by (simp add: set_current_line_def FrameState_init_def)
  have lines4: "frame_lines ?callee4 =
                  (replicate ?n \<lparr>internal = 0, external = 0\<rparr>)[j := \<lparr>internal = t_r - t_l', external = 0\<rparr>]"
    using jlt by (simp add: set_current_line_def FrameState_init_def LineState_add_internal_def)
  have int4: "internal (frame_lines ?callee4 ! j) = t_r - t_l'"
    unfolding lines4 using jlt by simp
  have tot4: "total_time ?callee4 = t_r - t_l'"
    unfolding total_time_def lines4 using total_time_one_line [OF jlt, of "t_r - t_l'" 0] by simp
  have fi4: "frame_internal ?callee4 = 0"
    by (simp add: set_current_line_def FrameState_init_def)
  have c4: "internal (frame_lines ?caller4 ! i) = internal (frame_lines caller ! i) + (t_c - t_p')"
    "external (frame_lines ?caller4 ! i) = external (frame_lines caller ! i)"
    using ilt by (simp_all add: LineState_add_internal_def)
  have o4: "py_overhead s4 c = py_overhead s1 c + (t_l - t_c')"
    by (simp add: py_overhead_def pf4 pf3 map_of_map_store overhead_def ov [unfolded py_overhead_def])
  \<comment> \<open>the event after the return\<close>
  have fn4: "map_of (py_functions s4) (function_key ?callee4) = Some ?fn3"
    by (simp add: set_current_line_def FrameState_init_def pf4 pf3 map_of_map_store)
  have len3: "0 < length (line_time ?fn3)" "0 < length (line_time_internal ?fn3)"
    using len jlt by simp_all
  have cur4: "current_line ?caller4 = Inr i"
    using cur by (simp add: current_line_def)
  let ?caller5 = "set_current_line (word_of_int (f_lineno frame_n))
                    (?caller4\<lparr>frame_lines := (frame_lines ?caller4)
                       [i := LineState_add_external (total_time ?callee4) (frame_lines ?caller4 ! i)]\<rparr>)"
  from profile_line_after_return [OF li4 st4 fn4 len3 cur4, of env frame_n arg_n t_n t_n'] ls4 fi4
  obtain s5 fn5 where 5: "profile env PyTrace_LINE frame_n arg_n t_n t_n' s4 = Inr s5"
    and st5: "frame_stack s5 = ?caller5 # rest"
    and pf5: "py_functions s5 = map_store (function_key ?callee4) fn5 (py_functions s4)"
    and i5: "internal_time fn5 = internal_time ?fn3 + (t_n - t_r')"
    by auto
  have c5: "internal (frame_lines ?caller5 ! i) = internal (frame_lines caller ! i) + (t_c - t_p')"
    "external (frame_lines ?caller5 ! i) = external (frame_lines caller ! i) + (t_r - t_l')"
    unfolding tot4 using ilt
    by (simp_all add: set_current_line_def LineState_add_internal_def LineState_add_external_def)
  have o5: "py_overhead s5 c = py_overhead s1 c + (t_l - t_c') + (t_n - t_r')"
    by (simp add: py_overhead_def pf5 set_current_line_def FrameState_init_def map_of_map_store
        overhead_def i5 ov [unfolded py_overhead_def])
  from 2 3 4 5 st4 key4 c4 o4 int4 tot4 st5 c5 o5 show ?thesis by blast
qed

theorem nested_call_attribution_witness:
  "profile demo_env PyTrace_LINE \<lparr>f_code = 1, f_lineno = 12\<rparr> builtin_len 1000000 1000000
       (the_state (run demo_env [py_event PyTrace_CALL 1 10 0] (start Module_init)))
     = Inr caller_running
   \<and> sized demo_env caller_running
   \<and> frame_stack caller_running
       = [\<lparr>starting_line = 10, current_line_no = 12, function_key = 1,
           frame_lines = [\<lparr>internal = 0, external = 0\<rparr>, \<lparr>internal = 0, external = 0\<rparr>,
                          \<lparr>internal = 0, external = 0\<rparr>],
           frame_internal = 0\<rparr>]
   \<and> getsourcelines demo_env 2 = Some ([''def callee():'', ''  a = 1'', ''  b = 2''], 20)
   \<and> (\<exists>s2 s3 s4 s5 callee caller4 caller5.
         profile demo_env PyTrace_CALL \<lparr>f_code = 2, f_lineno = 20\<rparr> builtin_len 11000000 11000000
           caller_running = Inr s2
       \<and> profile demo_env PyTrace_LINE \<lparr>f_code = 2, f_lineno = 22\<rparr> builtin_len 16000000 16000000 s2
           = Inr s3
       \<and> profile demo_env PyTrace_RETURN \<lparr>f_code = 2, f_lineno = 22\<rparr> builtin_len 18000000 18000000 s3
           = Inr s4
       \<and> profile demo_env PyTrace_LINE \<lparr>f_code = 1, f_lineno = 13\<rparr> builtin_len 19000000 19000000 s4
           = Inr s5
       \<and> frame_stack s4 = [callee, caller4]
       \<and> internal (frame_lines caller4 ! 1) = 10000000
       \<and> external (frame_lines caller4 ! 1) = 0
       \<and> py_overhead s4 2 = 5000000
       \<and> internal (frame_lines callee ! 1) = 2000000
       \<and> total_time callee = 2000000
       \<and> frame_stack s5 = [caller5]
       \<and> external (frame_lines caller5 ! 1) = 2000000
       \<and> py_overhead s5 2 = 6000000)"
proof -
  let ?caller = "\<lparr>starting_line = 10, current_line_no = 12, function_key = 1,
           frame_lines = [\<lparr>internal = 0, external = 0\<rparr>, \<lparr>internal = 0, external = 0\<rparr>,
                          \<lparr>internal = 0, external = 0\<rparr>],
           frame_internal = 0\<rparr>"
  have h1: "profile demo_env PyTrace_LINE \<lparr>f_code = 1, f_lineno = 12\<rparr> builtin_len 1000000 1000000
       (the_state (run demo_env [py_event PyTrace_CALL 1 10 0] (start Module_init)))
     = Inr caller_running"
    by (simp add: caller_running_def run_defs engine_defs the_state_def get_lines_loop_eq)
  have h2: "sized demo_env caller_running"
    by (simp add: caller_running_def run_defs engine_defs the_state_def get_lines_loop_eq
        sized_def record_sized_def frame_sized_def)
  have h3: "frame_stack caller_running = ?caller # []"
    by (simp add: caller_running_def run_defs engine_defs the_state_def get_lines_loop_eq)
  have h4: "current_line ?caller = Inr 1" by (simp add: current_line_def)
  have h5: "getsourcelines demo_env 2 = Some ([''def callee():'', ''  a = 1'', ''  b = 2''], 20)"
    by (simp add: demo_env_def)
  have h6: "f_code \<lparr>f_code = 2, f_lineno = 20\<rparr> = (2::nat)"
    and h7: "f_code \<lparr>f_code = 2, f_lineno = 22\<rparr> = (2::nat)" by simp_all
  have h8: "unat (word_of_int (f_lineno \<lparr>f_code = (2::nat), f_lineno = 22\<rparr>)
                  - PyLong_AsUnsignedLongLong 20 - 1) = 1"
    by (simp add: PyLong_AsUnsignedLongLong_def)
  have h9: "1 < length (drop 1 [''def callee():'', ''  a = 1'', ''  b = 2''])" by simp
  have o1: "py_overhead caller_running 2 = 0"
    by (simp add: caller_running_def run_defs engine_defs the_state_def get_lines_loop_eq
        py_overhead_def)
  from nested_call_attribution [OF h1 h2 h3 h4 h5 h6 h7 h8 h9,
      where arg_c = builtin_len and t_c = 11000000 and t_c' = 11000000
        and arg_l = builtin_len and t_l = 16000000 and t_l' = 16000000
        and frame_r = "\<lparr>f_code = 2, f_lineno = 22\<rparr>" and arg_r = builtin_len
        and t_r = 18000000 and t_r' = 18000000
        and frame_n = "\<lparr>f_code = 1, f_lineno = 13\<rparr>" and arg_n = builtin_len
        and t_n = 19000000 and t_n' = 19000000]
  have "\<exists>s2 s3 s4 s5 callee caller4 caller5.
         profile demo_env PyTrace_CALL \<lparr>f_code = 2, f_lineno = 20\<rparr> builtin_len 11000000 11000000
           caller_running = Inr s2
       \<and> profile demo_env PyTrace_LINE \<lparr>f_code = 2, f_lineno = 22\<rparr> builtin_len 16000000 16000000 s2
           = Inr s3
       \<and> profile demo_env PyTrace_RETURN \<lparr>f_code = 2, f_lineno = 22\<rparr> builtin_len 18000000 18000000 s3
           = Inr s4
       \<and> profile demo_env PyTrace_LINE \<lparr>f_code = 1, f_lineno = 13\<rparr> builtin_len 19000000 19000000 s4
           = Inr s5
       \<and> frame_stack s4 = [callee, caller4]
       \<and> internal (frame_lines caller4 ! 1) = 10000000
       \<and> external (frame_lines caller4 ! 1) = 0
       \<and> py_overhead s4 2 = 5000000
       \<and> internal (frame_lines callee ! 1) = 2000000
       \<and> total_time callee = 2000000
       \<and> frame_stack s5 = [caller5]
       \<and> external (frame_lines caller5 ! 1) = 2000000
       \<and> py_overhead s5 2 = 6000000"
    by (simp add: o1) blast
  with h1 h2 h3 h5 show ?thesis by blast
qed

end
